theory Spec2Isabelle
  imports
    Complex_Main
    "HOL-Library.Char_ord"
    "HOL-Library.List_Lexorder"
    "HOL-Library.Multiset"
begin

section \<open>Diabetes Care API: data model\<close>

text \<open>
  The embedding follows \<^verbatim>\<open>api.py\<close>. A pandas DataFrame is a list of rows, in row
  order. The columns the code reads are the fields of \<open>row\<close>, named as the columns are.
  A numeric column holds floats with NaN for a missing entry: it is a \<open>real option\<close>,
  \<open>None\<close> being NaN, and the arithmetic is exact (no rounding error of binary floats).
  Strings are compared as Python compares them, lexicographically by character code.
\<close>

record row =
  Area_Code :: string
  Area_Name :: string
  Area_Type :: string
  Time_period :: string
  Value :: "real option"
  Count :: "real option"
  Denominator :: "real option"

type_synonym dataframe = "row list"

record boundary =
  ICB23CD :: string
  geometry :: nat

type_synonym geodataframe = "boundary list"

datatype IndicatorID =
    TYPE1_9_CARE_PROCESSES
  | TYPE2_9_CARE_PROCESSES
  | TYPE1_RETINAL_SCREENING
  | TYPE2_RETINAL_SCREENING
  | TYPE1_TREATMENT_TARGETS
  | TYPE2_TREATMENT_TARGETS
  | TYPE1_STATIN_PRESCRIPTION
  | TYPE2_STATIN_PRESCRIPTION

fun indicator_value :: "IndicatorID \<Rightarrow> int" where
  "indicator_value TYPE1_9_CARE_PROCESSES = 94146"
| "indicator_value TYPE2_9_CARE_PROCESSES = 94147"
| "indicator_value TYPE1_RETINAL_SCREENING = 94148"
| "indicator_value TYPE2_RETINAL_SCREENING = 94149"
| "indicator_value TYPE1_TREATMENT_TARGETS = 94150"
| "indicator_value TYPE2_TREATMENT_TARGETS = 94151"
| "indicator_value TYPE1_STATIN_PRESCRIPTION = 94152"
| "indicator_value TYPE2_STATIN_PRESCRIPTION = 94153"

datatype AreaType = ENGLAND | ICBS | ICB_SUB_LOCATIONS | GPS

fun area_type_value :: "AreaType \<Rightarrow> string" where
  "area_type_value ENGLAND = ''England''"
| "area_type_value ICBS = ''ICBs''"
| "area_type_value ICB_SUB_LOCATIONS = ''ICB sub-locations''"
| "area_type_value GPS = ''GPs''"

datatype ColorMap = RdYlGn | Blues | Greens | Reds | viridis | coolwarm | plasma

record indicator_info =
  info_name :: string
  info_description :: string

text \<open>
  \<^verbatim>\<open>INDICATOR_INFO\<close> is a dict keyed by the indicator number. Every endpoint indexes it
  with the value of an \<open>IndicatorID\<close>, so the lookup is a total function of the enum.
\<close>

fun INDICATOR_INFO :: "IndicatorID \<Rightarrow> indicator_info" where
  "INDICATOR_INFO TYPE1_9_CARE_PROCESSES =
     \<lparr>info_name = ''Type 1 - All 9 care processes'',
      info_description = ''% receiving all annual checks''\<rparr>"
| "INDICATOR_INFO TYPE2_9_CARE_PROCESSES =
     \<lparr>info_name = ''Type 2 - All 9 care processes'',
      info_description = ''% receiving all annual checks''\<rparr>"
| "INDICATOR_INFO TYPE1_RETINAL_SCREENING =
     \<lparr>info_name = ''Type 1 - Retinal screening'',
      info_description = ''% getting eye exams (prevents blindness)''\<rparr>"
| "INDICATOR_INFO TYPE2_RETINAL_SCREENING =
     \<lparr>info_name = ''Type 2 - Retinal screening'',
      info_description = ''% getting eye exams''\<rparr>"
| "INDICATOR_INFO TYPE1_TREATMENT_TARGETS =
     \<lparr>info_name = ''Type 1 - All 3 treatment targets'',
      info_description = ''% with HbA1c, BP & cholesterol under control''\<rparr>"
| "INDICATOR_INFO TYPE2_TREATMENT_TARGETS =
     \<lparr>info_name = ''Type 2 - All 3 treatment targets'',
      info_description = ''% with HbA1c, BP & cholesterol under control''\<rparr>"
| "INDICATOR_INFO TYPE1_STATIN_PRESCRIPTION =
     \<lparr>info_name = ''Type 1 - Statin prescription'',
      info_description = ''% prescribed statins for heart disease prevention''\<rparr>"
| "INDICATOR_INFO TYPE2_STATIN_PRESCRIPTION =
     \<lparr>info_name = ''Type 2 - Statin prescription'',
      info_description = ''% prescribed statins for heart disease prevention''\<rparr>"

subsection \<open>Errors\<close>

text \<open>
  The exceptions the code raises itself are \<^verbatim>\<open>HTTPException(status_code, detail)\<close>. One
  exception of a library reaches a handler on a request that passes validation: \<^verbatim>\<open>re.error\<close>,
  raised by \<^verbatim>\<open>Series.str.contains\<close> when the area-name pattern of \<^verbatim>\<open>/data\<close> is not a valid
  regular expression. No code catches it, so the request ends in a server error; it is the
  error \<open>ReError\<close>. A handler returns \<open>Inl\<close> of the error or \<open>Inr\<close> of its response.
\<close>

datatype error = HTTPException (status_code: nat) (detail: string) | ReError

subsection \<open>The cache and the data access layer\<close>

text \<open>
  \<^verbatim>\<open>_cache\<close> is one process-wide dict with the keys \<^verbatim>\<open>indicator_<id>\<close> and
  \<^verbatim>\<open>boundaries\<close>. The two kinds of key hold values of different types, so the dict is a
  record of the two: a map from the indicator number to its dataset, and the optional boundary
  set. The handlers take the cache and return it with their result. The two upstream calls,
  \<^verbatim>\<open>ftp.get_data_for_indicator_at_all_available_geographies\<close> and
  \<^verbatim>\<open>gpd.read_file(BOUNDARIES_URL)\<close>, are parameters of the model.
\<close>

record cache =
  indicator_cache :: "int \<rightharpoonup> dataframe"
  boundaries_cache :: "geodataframe option"

definition empty_cache :: cache where
  "empty_cache = \<lparr>indicator_cache = Map.empty, boundaries_cache = None\<rparr>"

definition get_indicator_data ::
  "(int \<Rightarrow> dataframe) \<Rightarrow> cache \<Rightarrow> int \<Rightarrow> dataframe \<times> cache" where
  "get_indicator_data ftp_get c indicator_id =
     (case indicator_cache c indicator_id of
        Some d \<Rightarrow> (d, c)
      | None \<Rightarrow>
          (let d = ftp_get indicator_id
           in (d, c\<lparr>indicator_cache := (indicator_cache c)(indicator_id \<mapsto> d)\<rparr>)))"

definition get_boundaries :: "geodataframe \<Rightarrow> cache \<Rightarrow> geodataframe \<times> cache" where
  "get_boundaries read_file c =
     (case boundaries_cache c of
        Some g \<Rightarrow> (g, c)
      | None \<Rightarrow> (read_file, c\<lparr>boundaries_cache := Some read_file\<rparr>))"

definition clear_cache :: "cache \<Rightarrow> cache" where
  "clear_cache c = empty_cache"

subsection \<open>The filter layer\<close>

text \<open>
  \<^verbatim>\<open>df['Time period'].max()\<close> is read only after the emptiness check, so the rows are
  \<open>r # rs\<close> there and the maximum is a fold of \<open>max\<close> over them.
\<close>

definition filter_rows ::
  "dataframe \<Rightarrow> string \<Rightarrow> string option \<Rightarrow> error + (dataframe \<times> string)" where
  "filter_rows data area_type time_period =
     (case filter (\<lambda>r. Area_Type r = area_type) data of
        [] \<Rightarrow> Inl (HTTPException 404 (''No data for area type '' @ [CHR 0x27] @ area_type @ [CHR 0x27]))
      | r # rs \<Rightarrow>
          (let tp = (case time_period of
                       None \<Rightarrow> fold max (map Time_period rs) (Time_period r)
                     | Some p \<Rightarrow> p);
               df = filter (\<lambda>x. Time_period x = tp) (r # rs)
           in if df = []
              then Inl (HTTPException 404 (''No data for time period '' @ [CHR 0x27] @ tp @ [CHR 0x27]))
              else Inr (df, tp)))"

definition filter_data ::
  "(int \<Rightarrow> dataframe) \<Rightarrow> cache \<Rightarrow> int \<Rightarrow> string \<Rightarrow> string option
     \<Rightarrow> (error + (dataframe \<times> string)) \<times> cache" where
  "filter_data ftp_get c indicator_id area_type time_period =
     (let (data, c') = get_indicator_data ftp_get c indicator_id
      in (filter_rows data area_type time_period, c'))"

subsection \<open>Reference endpoints\<close>

record time_periods_response =
  time_periods :: "string list"
  latest :: "string option"

text \<open>
  \<^verbatim>\<open>sorted(..., reverse=True)\<close> of the distinct periods: the descending order of a list
  without duplicates is the reverse of its ascending order.
\<close>

definition list_time_periods ::
  "(int \<Rightarrow> dataframe) \<Rightarrow> cache \<Rightarrow> IndicatorID \<Rightarrow> AreaType
     \<Rightarrow> (error + time_periods_response) \<times> cache" where
  "list_time_periods ftp_get c indicator_id area_type =
     (let (data, c') = get_indicator_data ftp_get c (indicator_value indicator_id);
          df = filter (\<lambda>r. Area_Type r = area_type_value area_type) data;
          periods = rev (sort (remdups (map Time_period df)))
      in (Inr \<lparr>time_periods = periods,
               latest = (case periods of [] \<Rightarrow> None | p # _ \<Rightarrow> Some p)\<rparr>, c'))"

subsection \<open>Floats: comparison with NaN, rounding, truncation\<close>

text \<open>
  A comparison with NaN is false. \<^verbatim>\<open>round(x, nd)\<close> rounds to \<open>nd\<close> decimals, a tie going
  to the even neighbour, and leaves NaN as it is. \<^verbatim>\<open>int(x)\<close> truncates towards zero.
\<close>

definition float_ge :: "real option \<Rightarrow> real \<Rightarrow> bool" where
  "float_ge v b = (case v of None \<Rightarrow> False | Some x \<Rightarrow> b \<le> x)"

definition float_le :: "real option \<Rightarrow> real \<Rightarrow> bool" where
  "float_le v b = (case v of None \<Rightarrow> False | Some x \<Rightarrow> x \<le> b)"

definition float_gt :: "real option \<Rightarrow> real \<Rightarrow> bool" where
  "float_gt v b = (case v of None \<Rightarrow> False | Some x \<Rightarrow> b < x)"

definition float_lt :: "real option \<Rightarrow> real \<Rightarrow> bool" where
  "float_lt v b = (case v of None \<Rightarrow> False | Some x \<Rightarrow> x < b)"

definition round_half_even :: "real \<Rightarrow> int" where
  "round_half_even q =
     (let f = \<lfloor>q\<rfloor>; d = q - of_int f
      in if d < 1 / 2 then f
         else if 1 / 2 < d then f + 1
         else if even f then f else f + 1)"

definition round_nd :: "nat \<Rightarrow> real \<Rightarrow> real" where
  "round_nd nd x = of_int (round_half_even (x * 10 ^ nd)) / 10 ^ nd"

definition py_round :: "real option \<Rightarrow> nat \<Rightarrow> real option" where
  "py_round v nd = map_option (round_nd nd) v"

definition py_int :: "real \<Rightarrow> int" where
  "py_int x = (if 0 \<le> x then \<lfloor>x\<rfloor> else \<lceil>x\<rceil>)"

definition int_or_none :: "real option \<Rightarrow> int option" where
  "int_or_none v = map_option py_int v"

subsection \<open>Frame operations of pandas\<close>

text \<open>
  \<^verbatim>\<open>dropna(subset=[...])\<close> keeps the rows whose listed columns are present.
  \<^verbatim>\<open>sort_values('Value', ascending=...)\<close> orders by value with the NaN rows last.
  \<^verbatim>\<open>nlargest(n, 'Value')\<close> and \<^verbatim>\<open>nsmallest(n, 'Value')\<close> (\<^verbatim>\<open>keep='first'\<close>)
  are the first \<open>n\<close> rows of the frame ordered by falling, respectively rising, value, the
  rows of equal value staying in frame order. pandas leaves the order of rows of equal value
  open where it sorts with its default algorithm (\<^verbatim>\<open>sort_values\<close>, and the two selections
  when \<open>n\<close> is not below the number of rows); the model takes the frame order there as
  well, and the properties of the endpoints proved below do not depend on that choice.
  \<open>sort_key\<close> is a stable insertion sort. \<open>value_of\<close> reads a value that is present.
\<close>

definition dropna_Value :: "dataframe \<Rightarrow> dataframe" where
  "dropna_Value df = filter (\<lambda>r. Value r \<noteq> None) df"

definition dropna_Value_Denominator :: "dataframe \<Rightarrow> dataframe" where
  "dropna_Value_Denominator df = filter (\<lambda>r. Value r \<noteq> None \<and> Denominator r \<noteq> None) df"

definition value_of :: "row \<Rightarrow> real" where
  "value_of r = (case Value r of None \<Rightarrow> 0 | Some v \<Rightarrow> v)"

definition sort_values_desc :: "dataframe \<Rightarrow> dataframe" where
  "sort_values_desc df =
     sort_key (\<lambda>r. - value_of r) (filter (\<lambda>r. Value r \<noteq> None) df)
       @ filter (\<lambda>r. Value r = None) df"

definition sort_values_asc :: "dataframe \<Rightarrow> dataframe" where
  "sort_values_asc df =
     sort_key value_of (filter (\<lambda>r. Value r \<noteq> None) df)
       @ filter (\<lambda>r. Value r = None) df"

definition nlargest :: "nat \<Rightarrow> dataframe \<Rightarrow> dataframe" where
  "nlargest n df = take n (sort_values_desc df)"

definition nsmallest :: "nat \<Rightarrow> dataframe \<Rightarrow> dataframe" where
  "nsmallest n df = take n (sort_values_asc df)"

subsection \<open>The record listing\<close>

record data_record =
  rec_area_code :: string
  rec_area_name :: string
  rec_value :: "real option"
  rec_count :: "int option"
  rec_denominator :: "int option"

record data_response =
  data_indicator :: indicator_info
  data_area_type :: string
  data_time_period :: string
  data_count :: nat
  data_data :: "data_record list"

definition to_record :: "row \<Rightarrow> data_record" where
  "to_record r =
     \<lparr>rec_area_code = Area_Code r,
      rec_area_name = Area_Name r,
      rec_value = py_round (Value r) 2,
      rec_count = int_or_none (Count r),
      rec_denominator = int_or_none (Denominator r)\<rparr>"

text \<open>
  \<^verbatim>\<open>Series.str.contains(pat, case=False, na=False)\<close> takes the pattern as a regular
  expression: it compiles it, which raises \<^verbatim>\<open>re.error\<close> on an invalid pattern, and then keeps
  the rows whose area name the compiled pattern finds a match in. The compiler is the
  parameter \<open>re_compile\<close>: \<open>None\<close> for an invalid pattern, otherwise the search predicate of
  the pattern. \<^verbatim>\<open>if area_name_contains:\<close> and \<^verbatim>\<open>if limit:\<close> test truthiness: an empty string
  and a zero limit skip the step, as \<open>None\<close> does.
\<close>

definition area_name_filter ::
  "(string \<Rightarrow> (string \<Rightarrow> bool) option) \<Rightarrow> string option \<Rightarrow> dataframe \<Rightarrow> error + dataframe" where
  "area_name_filter re_compile area_name_contains df =
     (case area_name_contains of
        None \<Rightarrow> Inr df
      | Some s \<Rightarrow>
          if s = [] then Inr df
          else (case re_compile s of
                  None \<Rightarrow> Inl ReError
                | Some found \<Rightarrow> Inr (filter (\<lambda>r. found (Area_Name r)) df)))"

definition get_data ::
  "(int \<Rightarrow> dataframe) \<Rightarrow> (string \<Rightarrow> (string \<Rightarrow> bool) option) \<Rightarrow> cache
     \<Rightarrow> IndicatorID \<Rightarrow> AreaType
     \<Rightarrow> string option \<Rightarrow> string option \<Rightarrow> real option \<Rightarrow> real option \<Rightarrow> nat option
     \<Rightarrow> (error + data_response) \<times> cache" where
  "get_data ftp_get re_compile c indicator_id area_type time_period
       area_name_contains min_value max_value limit =
     (case filter_data ftp_get c (indicator_value indicator_id) (area_type_value area_type) time_period of
        (Inl e, c') \<Rightarrow> (Inl e, c')
      | (Inr (df, period), c') \<Rightarrow>
          (case area_name_filter re_compile area_name_contains df of
             Inl e \<Rightarrow> (Inl e, c')
           | Inr df1 \<Rightarrow>
               (let df2 = (case min_value of
                             None \<Rightarrow> df1
                           | Some m \<Rightarrow> filter (\<lambda>r. float_ge (Value r) m) df1);
                    df3 = (case max_value of
                             None \<Rightarrow> df2
                           | Some m \<Rightarrow> filter (\<lambda>r. float_le (Value r) m) df2);
                    df4 = sort_values_desc df3;
                    df5 = (case limit of
                             None \<Rightarrow> df4
                           | Some l \<Rightarrow> if l = 0 then df4 else take l df4);
                    records = map to_record df5
                in (Inr \<lparr>data_indicator = INDICATOR_INFO indicator_id,
                         data_area_type = area_type_value area_type,
                         data_time_period = period,
                         data_count = length records,
                         data_data = records\<rparr>, c'))))"

subsection \<open>Summary statistics\<close>

text \<open>
  \<^verbatim>\<open>values = df['Value'].dropna()\<close> is the list of the values that are present. The
  reductions of a pandas Series: each is NaN on an empty Series, and the sample standard
  deviation (denominator \<open>N - 1\<close>) is NaN on fewer than two values. \<^verbatim>\<open>quantile(q)\<close> uses
  linear interpolation: at the position \<open>(N - 1) * q\<close> of the sorted values, between the
  two neighbours. \<^verbatim>\<open>median()\<close> is the middle sorted value, or the mean of the two middle
  ones.
\<close>

definition values_of :: "dataframe \<Rightarrow> real list" where
  "values_of df = List.map_filter Value df"

definition series_mean :: "real list \<Rightarrow> real option" where
  "series_mean vs = (if vs = [] then None else Some (sum_list vs / real (length vs)))"

definition series_std :: "real list \<Rightarrow> real option" where
  "series_std vs =
     (if length vs < 2 then None
      else (let m = sum_list vs / real (length vs)
            in Some (sqrt (sum_list (map (\<lambda>x. (x - m)\<^sup>2) vs) / real (length vs - 1)))))"

definition series_min :: "real list \<Rightarrow> real option" where
  "series_min vs = (case vs of [] \<Rightarrow> None | x # xs \<Rightarrow> Some (fold min xs x))"

definition series_max :: "real list \<Rightarrow> real option" where
  "series_max vs = (case vs of [] \<Rightarrow> None | x # xs \<Rightarrow> Some (fold max xs x))"

definition interpolate :: "real list \<Rightarrow> real \<Rightarrow> real" where
  "interpolate s h =
     (let lo = nat \<lfloor>h\<rfloor>;
          hi = min (lo + 1) (length s - 1);
          g = h - real lo
      in s ! lo + g * (s ! hi - s ! lo))"

definition series_quantile :: "real list \<Rightarrow> real \<Rightarrow> real option" where
  "series_quantile vs q =
     (if vs = [] then None
      else Some (interpolate (sort vs) (real (length vs - 1) * q)))"

definition series_median :: "real list \<Rightarrow> real option" where
  "series_median vs =
     (if vs = [] then None
      else (let s = sort vs; n = length s
            in Some (if odd n then s ! (n div 2)
                     else (s ! (n div 2 - 1) + s ! (n div 2)) / 2)))"

record statistics =
  stat_mean :: "real option"
  stat_std :: "real option"
  stat_min :: "real option"
  stat_percentile_25 :: "real option"
  stat_median :: "real option"
  stat_percentile_75 :: "real option"
  stat_max :: "real option"

record summary_response =
  summary_indicator :: indicator_info
  summary_area_type :: string
  summary_time_period :: string
  summary_areas_count :: nat
  summary_total_patients :: "int option"
  summary_statistics :: statistics

text \<open>
  The frame always has the column \<^verbatim>\<open>Denominator\<close>, so \<^verbatim>\<open>total_patients\<close> is the
  truncated sum of the denominators that are present.
\<close>

definition get_summary ::
  "(int \<Rightarrow> dataframe) \<Rightarrow> cache \<Rightarrow> IndicatorID \<Rightarrow> AreaType \<Rightarrow> string option
     \<Rightarrow> (error + summary_response) \<times> cache" where
  "get_summary ftp_get c indicator_id area_type time_period =
     (case filter_data ftp_get c (indicator_value indicator_id) (area_type_value area_type) time_period of
        (Inl e, c') \<Rightarrow> (Inl e, c')
      | (Inr (df, period), c') \<Rightarrow>
          (let vals = values_of df
           in (Inr \<lparr>summary_indicator = INDICATOR_INFO indicator_id,
                    summary_area_type = area_type_value area_type,
                    summary_time_period = period,
                    summary_areas_count = length vals,
                    summary_total_patients =
                      Some (py_int (sum_list (List.map_filter Denominator df))),
                    summary_statistics =
                      \<lparr>stat_mean = py_round (series_mean vals) 2,
                       stat_std = py_round (series_std vals) 2,
                       stat_min = py_round (series_min vals) 2,
                       stat_percentile_25 = py_round (series_quantile vals (1 / 4)) 2,
                       stat_median = py_round (series_median vals) 2,
                       stat_percentile_75 = py_round (series_quantile vals (3 / 4)) 2,
                       stat_max = py_round (series_max vals) 2\<rparr>\<rparr>, c')))"

subsection \<open>Rankings\<close>

datatype order = Top | Bottom

record ranking =
  ranking_rank :: nat
  ranking_area_code :: string
  ranking_area_name :: string
  ranking_value :: "real option"
  ranking_patient_count :: "int option"

record rankings_response =
  rankings_indicator :: indicator_info
  rankings_area_type :: string
  rankings_time_period :: string
  rankings_order :: order
  rankings_rankings :: "ranking list"

definition to_ranking :: "nat \<times> row \<Rightarrow> ranking" where
  "to_ranking p =
     (case p of (rank, r) \<Rightarrow>
        \<lparr>ranking_rank = rank,
         ranking_area_code = Area_Code r,
         ranking_area_name = Area_Name r,
         ranking_value = py_round (Value r) 2,
         ranking_patient_count = int_or_none (Denominator r)\<rparr>)"

text \<open>\<^verbatim>\<open>enumerate(df.iterrows(), 1)\<close> pairs the rows with 1, 2, 3, ...\<close>

definition enumerate1 :: "'a list \<Rightarrow> (nat \<times> 'a) list" where
  "enumerate1 xs = zip [1 ..< Suc (length xs)] xs"

definition select_rows :: "order \<Rightarrow> nat \<Rightarrow> dataframe \<Rightarrow> dataframe" where
  "select_rows ord n df =
     (let df1 = dropna_Value df
      in if ord = Top then nlargest n df1 else nsmallest n df1)"

definition get_rankings ::
  "(int \<Rightarrow> dataframe) \<Rightarrow> cache \<Rightarrow> IndicatorID \<Rightarrow> AreaType \<Rightarrow> string option \<Rightarrow> nat \<Rightarrow> order
     \<Rightarrow> (error + rankings_response) \<times> cache" where
  "get_rankings ftp_get c indicator_id area_type time_period n ord =
     (case filter_data ftp_get c (indicator_value indicator_id) (area_type_value area_type) time_period of
        (Inl e, c') \<Rightarrow> (Inl e, c')
      | (Inr (df, period), c') \<Rightarrow>
          (Inr \<lparr>rankings_indicator = INDICATOR_INFO indicator_id,
                rankings_area_type = area_type_value area_type,
                rankings_time_period = period,
                rankings_order = ord,
                rankings_rankings = map to_ranking (enumerate1 (select_rows ord n df))\<rparr>, c'))"

subsection \<open>Correlation\<close>

text \<open>
  \<^verbatim>\<open>stats.pearsonr(x, y)\<close> is the parameter \<open>pearsonr\<close>: it returns the coefficient and the
  two-sided p-value, each a float that may be NaN.
\<close>

record correlation =
  corr_r :: "real option"
  corr_p_value :: "real option"
  corr_significant :: bool
  corr_interpretation :: string

record correlation_response =
  correlation_indicator :: indicator_info
  correlation_area_type :: string
  correlation_time_period :: string
  correlation_correlation :: correlation

definition interpretation_text :: "real option \<Rightarrow> real option \<Rightarrow> string" where
  "interpretation_text r p =
     (if float_ge p (5 / 100)
      then ''No significant relationship between population size and care quality.''
      else if float_gt r (3 / 10)
      then ''Larger populations tend to have better care quality.''
      else if float_lt r (- (3 / 10))
      then ''Larger populations tend to have worse care quality.''
      else ''Weak relationship between population size and care quality.'')"

definition get_correlation ::
  "(int \<Rightarrow> dataframe) \<Rightarrow> (real list \<Rightarrow> real list \<Rightarrow> real option \<times> real option) \<Rightarrow> cache
     \<Rightarrow> IndicatorID \<Rightarrow> AreaType \<Rightarrow> string option
     \<Rightarrow> (error + correlation_response) \<times> cache" where
  "get_correlation ftp_get pearsonr c indicator_id area_type time_period =
     (case filter_data ftp_get c (indicator_value indicator_id) (area_type_value area_type) time_period of
        (Inl e, c') \<Rightarrow> (Inl e, c')
      | (Inr (df, period), c') \<Rightarrow>
          (let df1 = dropna_Value_Denominator df
           in if length df1 < 3
              then (Inl (HTTPException 400 ''Insufficient data for correlation analysis''), c')
              else (let x = List.map_filter Denominator df1;
                        y = List.map_filter Value df1;
                        (r, p) = pearsonr x y
                    in (Inr \<lparr>correlation_indicator = INDICATOR_INFO indicator_id,
                             correlation_area_type = area_type_value area_type,
                             correlation_time_period = period,
                             correlation_correlation =
                               \<lparr>corr_r = py_round r 4,
                                corr_p_value = py_round p 4,
                                corr_significant = float_lt p (5 / 100),
                                corr_interpretation = interpretation_text r p\<rparr>\<rparr>, c'))))"

subsection \<open>The choropleth map\<close>

text \<open>
  \<^verbatim>\<open>gdf.merge(df[['Area Code', 'Area Name', 'Value']], left_on='ICB23CD',
  right_on='Area Code', how=...)\<close>: for each boundary, in the order of the boundaries, one
  merged row for each indicator row of the same code. A boundary without such a row is
  dropped by an inner join and kept by a left join, with the right columns missing. The
  geometry of a boundary is an opaque number.
\<close>

datatype how = Left | Inner

record merged_row =
  m_ICB23CD :: string
  m_geometry :: nat
  m_Area_Code :: "string option"
  m_Area_Name :: "string option"
  m_Value :: "real option"

definition merge_row :: "boundary \<Rightarrow> row \<Rightarrow> merged_row" where
  "merge_row b r =
     \<lparr>m_ICB23CD = ICB23CD b, m_geometry = geometry b,
      m_Area_Code = Some (Area_Code r), m_Area_Name = Some (Area_Name r), m_Value = Value r\<rparr>"

definition unmatched_row :: "boundary \<Rightarrow> merged_row" where
  "unmatched_row b =
     \<lparr>m_ICB23CD = ICB23CD b, m_geometry = geometry b,
      m_Area_Code = None, m_Area_Name = None, m_Value = None\<rparr>"

definition merge :: "how \<Rightarrow> geodataframe \<Rightarrow> dataframe \<Rightarrow> merged_row list" where
  "merge h gdf df =
     concat (map (\<lambda>b. case filter (\<lambda>r. Area_Code r = ICB23CD b) df of
                         [] \<Rightarrow> (if h = Left then [unmatched_row b] else [])
                       | ms \<Rightarrow> map (merge_row b) ms) gdf)"

text \<open>
  \<^verbatim>\<open>GeoDataFrame.plot(column='Value', cmap=..., missing_kwds=...)\<close> draws the geometries
  whose value is present, coloured by the colour map, and then the geometries whose value is
  missing: with the colour of \<^verbatim>\<open>missing_kwds\<close> when it is given, not at all when it is
  not.
\<close>

record missing_kwds =
  mk_color :: string
  mk_label :: string

datatype fill = Scaled ColorMap real | Missing_fill string

record patch =
  patch_code :: string
  patch_geometry :: nat
  patch_fill :: fill

definition plot :: "ColorMap \<Rightarrow> missing_kwds option \<Rightarrow> merged_row list \<Rightarrow> patch list" where
  "plot cmap missing rows =
     concat (map (\<lambda>m. case m_Value m of
                          Some v \<Rightarrow> [\<lparr>patch_code = m_ICB23CD m, patch_geometry = m_geometry m,
                                      patch_fill = Scaled cmap v\<rparr>]
                        | None \<Rightarrow> []) rows)
     @ (case missing of
          None \<Rightarrow> []
        | Some kw \<Rightarrow>
            map (\<lambda>m. \<lparr>patch_code = m_ICB23CD m, patch_geometry = m_geometry m,
                        patch_fill = Missing_fill (mk_color kw)\<rparr>)
                (filter (\<lambda>m. m_Value m = None) rows))"

datatype image_format = PNG | BASE64

record map_image =
  image_patches :: "patch list"
  image_title :: string
  image_legend_label :: string
  image_figsize :: "real \<times> real"
  image_dpi :: nat
  image_format :: image_format

text \<open>
  The response is the PNG of the figure, as bytes or in base64; the model returns what the
  figure holds. \<^verbatim>\<open>title or ...\<close>: an empty title gives the default one, as \<open>None\<close> does.
\<close>

definition generate_map ::
  "(int \<Rightarrow> dataframe) \<Rightarrow> geodataframe \<Rightarrow> cache \<Rightarrow> IndicatorID \<Rightarrow> string option \<Rightarrow> ColorMap
     \<Rightarrow> real \<Rightarrow> real \<Rightarrow> nat \<Rightarrow> string option \<Rightarrow> image_format
     \<Rightarrow> (error + map_image) \<times> cache" where
  "generate_map ftp_get read_file c indicator_id time_period cmap
       figsize_width figsize_height dpi title fmt =
     (case filter_data ftp_get c (indicator_value indicator_id) ''ICBs'' time_period of
        (Inl e, c') \<Rightarrow> (Inl e, c')
      | (Inr (df, period), c') \<Rightarrow>
          (let (gdf, c'') = get_boundaries read_file c';
               gdf_plot = merge Left gdf df;
               patches = plot cmap (Some \<lparr>mk_color = ''lightgrey'', mk_label = ''No data''\<rparr>) gdf_plot;
               default_title = info_name (INDICATOR_INFO indicator_id) @ [CHR 0x0A]
                                 @ ''by ICB - '' @ period;
               map_title = (case title of
                              None \<Rightarrow> default_title
                            | Some t \<Rightarrow> if t = [] then default_title else t)
           in (Inr \<lparr>image_patches = patches,
                    image_title = map_title,
                    image_legend_label = ''% - '' @ info_name (INDICATOR_INFO indicator_id),
                    image_figsize = (figsize_width, figsize_height),
                    image_dpi = dpi,
                    image_format = fmt\<rparr>, c'')))"

section \<open>Notions used to state the properties\<close>

text \<open>
  The period that the filter layer resolves on the rows \<open>df\<close> of the area type: the requested
  one, or the greatest period of \<open>df\<close>.
\<close>

definition resolved_period :: "dataframe \<Rightarrow> string option \<Rightarrow> string" where
  "resolved_period df time_period =
     (case time_period of None \<Rightarrow> Max (Time_period ` set df) | Some p \<Rightarrow> p)"

text \<open>
  The area-name pattern of a request compiles (or there is none), and a row passes the
  optional filters of the record listing.
\<close>

definition pattern_compiles :: "(string \<Rightarrow> (string \<Rightarrow> bool) option) \<Rightarrow> string option \<Rightarrow> bool" where
  "pattern_compiles re_compile area_name_contains =
     (case area_name_contains of
        None \<Rightarrow> True
      | Some s \<Rightarrow> s = [] \<or> re_compile s \<noteq> None)"

definition passes_filters ::
  "(string \<Rightarrow> (string \<Rightarrow> bool) option) \<Rightarrow> string option \<Rightarrow> real option \<Rightarrow> real option
     \<Rightarrow> row \<Rightarrow> bool" where
  "passes_filters re_compile area_name_contains min_value max_value r =
     ((case area_name_contains of
         None \<Rightarrow> True
       | Some s \<Rightarrow> s = [] \<or> (case re_compile s of
                                None \<Rightarrow> False
                              | Some found \<Rightarrow> found (Area_Name r)))
      \<and> (case min_value of None \<Rightarrow> True | Some m \<Rightarrow> float_ge (Value r) m)
      \<and> (case max_value of None \<Rightarrow> True | Some m \<Rightarrow> float_le (Value r) m))"

text \<open>
  \<open>w\<close> is \<open>v\<close> rounded to \<open>nd\<close> decimals: NaN stays NaN, and a number becomes a multiple of
  \<open>1 / 10 ^ nd\<close> that is nearest to it, the even multiple when two are equally near.
\<close>

definition rounded_to :: "nat \<Rightarrow> real option \<Rightarrow> real option \<Rightarrow> bool" where
  "rounded_to nd v w =
     (case v of
        None \<Rightarrow> w = None
      | Some x \<Rightarrow>
          (case w of
             None \<Rightarrow> False
           | Some y \<Rightarrow>
               of_int \<lfloor>y * 10 ^ nd\<rfloor> = y * 10 ^ nd
               \<and> \<bar>y - x\<bar> * (2 * 10 ^ nd) \<le> 1
               \<and> (\<bar>y - x\<bar> * (2 * 10 ^ nd) = 1 \<longrightarrow> even \<lfloor>y * 10 ^ nd\<rfloor>)))"

text \<open>The patch that the plot draws for a merged row, given the keywords for missing values.\<close>

definition patch_of :: "ColorMap \<Rightarrow> missing_kwds \<Rightarrow> merged_row \<Rightarrow> patch" where
  "patch_of cmap kw m =
     \<lparr>patch_code = m_ICB23CD m, patch_geometry = m_geometry m,
      patch_fill = (case m_Value m of Some v \<Rightarrow> Scaled cmap v | None \<Rightarrow> Missing_fill (mk_color kw))\<rparr>"

subsection \<open>Sample datasets\<close>

definition mk_row ::
  "string \<Rightarrow> string \<Rightarrow> string \<Rightarrow> string \<Rightarrow> real option \<Rightarrow> real option \<Rightarrow> real option \<Rightarrow> row" where
  "mk_row code name aty tp v cnt den =
     \<lparr>Area_Code = code, Area_Name = name, Area_Type = aty, Time_period = tp,
      Value = v, Count = cnt, Denominator = den\<rparr>"

definition sample_data :: dataframe where
  "sample_data =
     [mk_row ''E54000008'' ''Cheshire'' ''ICBs'' ''2022/23'' (Some 40) (Some 400) (Some 1000),
      mk_row ''E54000008'' ''Cheshire'' ''ICBs'' ''2023/24'' (Some (85 / 2)) (Some 425) (Some 1000),
      mk_row ''E54000010'' ''Kent'' ''ICBs'' ''2023/24'' None None None,
      mk_row ''E54000011'' ''Shropshire'' ''ICBs'' ''2023/24'' (Some (221 / 4)) (Some 1105) (Some 2000),
      mk_row ''E54000013'' ''Lincolnshire'' ''ICBs'' ''2023/24'' (Some 38) (Some 570) (Some 1500),
      mk_row ''E92000001'' ''England'' ''England'' ''2022/23'' (Some 39) (Some 39000) (Some 100000)]"

definition six_areas :: dataframe where
  "six_areas =
     [mk_row ''A1'' ''One'' ''ICBs'' ''2023/24'' (Some 10) (Some 10) (Some 100),
      mk_row ''A2'' ''Two'' ''ICBs'' ''2023/24'' (Some 20) (Some 20) (Some 100),
      mk_row ''A3'' ''Three'' ''ICBs'' ''2023/24'' (Some 30) (Some 30) (Some 100),
      mk_row ''A4'' ''Four'' ''ICBs'' ''2023/24'' (Some 40) (Some 40) (Some 100),
      mk_row ''A5'' ''Five'' ''ICBs'' ''2023/24'' (Some 50) (Some 50) (Some 100),
      mk_row ''A6'' ''Six'' ''ICBs'' ''2023/24'' (Some 60) (Some 60) (Some 100)]"

definition ten_areas :: dataframe where
  "ten_areas =
     [mk_row ''B01'' ''Area 1'' ''ICBs'' ''2023/24'' (Some 31) (Some 31) (Some 100),
      mk_row ''B02'' ''Area 2'' ''ICBs'' ''2023/24'' (Some 47) (Some 47) (Some 100),
      mk_row ''B03'' ''Area 3'' ''ICBs'' ''2023/24'' (Some 12) (Some 12) (Some 100),
      mk_row ''B04'' ''Area 4'' ''ICBs'' ''2023/24'' (Some 58) (Some 58) (Some 100),
      mk_row ''B05'' ''Area 5'' ''ICBs'' ''2023/24'' (Some 26) (Some 26) (Some 100),
      mk_row ''B06'' ''Area 6'' ''ICBs'' ''2023/24'' (Some 73) (Some 73) (Some 100),
      mk_row ''B07'' ''Area 7'' ''ICBs'' ''2023/24'' (Some 64) (Some 64) (Some 100),
      mk_row ''B08'' ''Area 8'' ''ICBs'' ''2023/24'' (Some 19) (Some 19) (Some 100),
      mk_row ''B09'' ''Area 9'' ''ICBs'' ''2023/24'' (Some 85) (Some 85) (Some 100),
      mk_row ''B10'' ''Area 10'' ''ICBs'' ''2023/24'' (Some 90) (Some 90) (Some 100)]"

definition sample_boundaries :: geodataframe where
  "sample_boundaries =
     [\<lparr>ICB23CD = ''E54000008'', geometry = 1\<rparr>,
      \<lparr>ICB23CD = ''E54000010'', geometry = 2\<rparr>,
      \<lparr>ICB23CD = ''E54000099'', geometry = 3\<rparr>]"

section \<open>The filter layer\<close>

lemma max_period_attained:
  assumes "df \<noteq> []"
  shows "\<exists>x\<in>set df. Time_period x = Max (Time_period ` set df)"
proof -
  have "Max (Time_period ` set df) \<in> Time_period ` set df"
    using assms by (intro Max_in) auto
  then show ?thesis by (auto simp: image_iff)
qed

lemma fold_max_periods:
  "fold max (map Time_period rs) (Time_period r) = Max (Time_period ` set (r # rs))"
  using Max.set_eq_fold[of "Time_period r" "map Time_period rs"] by simp

lemma filter_rows_Nil:
  assumes "filter (\<lambda>r. Area_Type r = aty) data = []"
  shows "filter_rows data aty tp =
     Inl (HTTPException 404 (''No data for area type '' @ [CHR 0x27] @ aty @ [CHR 0x27]))"
  using assms by (simp add: filter_rows_def)

lemma filter_rows_Cons:
  assumes "df = filter (\<lambda>r. Area_Type r = aty) data" and "df \<noteq> []"
  shows "filter_rows data aty tp =
     (if filter (\<lambda>x. Time_period x = resolved_period df tp) df = []
      then Inl (HTTPException 404
             (''No data for time period '' @ [CHR 0x27] @ resolved_period df tp @ [CHR 0x27]))
      else Inr (filter (\<lambda>x. Time_period x = resolved_period df tp) df, resolved_period df tp))"
proof -
  obtain r rs where df: "df = r # rs"
    using assms(2) by (cases df) auto
  have rp: "(case tp of None \<Rightarrow> fold max (map Time_period rs) (Time_period r) | Some p \<Rightarrow> p)
              = resolved_period (r # rs) tp"
    unfolding resolved_period_def fold_max_periods by (rule refl)
  show ?thesis
    unfolding filter_rows_def assms(1)[symmetric]
    unfolding df list.case Let_def rp by (rule refl)
qed

lemma filter_rows_latest:
  assumes "df = filter (\<lambda>r. Area_Type r = aty) data" and "df \<noteq> []"
  shows "filter_rows data aty None =
     Inr (filter (\<lambda>r. Time_period r = Max (Time_period ` set df)) df, Max (Time_period ` set df))"
proof -
  have "\<exists>x\<in>set df. Time_period x = Max (Time_period ` set df)"
    using assms(2) by (rule max_period_attained)
  then have ne: "filter (\<lambda>x. Time_period x = Max (Time_period ` set df)) df \<noteq> []"
    unfolding filter_empty_conv by blast
  show ?thesis
    unfolding filter_rows_Cons[OF assms] resolved_period_def option.case
    using ne by (simp only: if_False)
qed

lemma fst_filter_data:
  "fst (filter_data ftp_get c i aty tp) = filter_rows (fst (get_indicator_data ftp_get c i)) aty tp"
  by (simp add: filter_data_def split_beta)

lemma snd_filter_data:
  "snd (filter_data ftp_get c i aty tp) = snd (get_indicator_data ftp_get c i)"
  by (simp add: filter_data_def split_beta)

lemma get_indicator_data_cached:
  assumes "indicator_cache c i = Some d"
  shows "get_indicator_data ftp_get c i = (d, c)"
  using assms by (simp add: get_indicator_data_def)

lemma get_indicator_data_fresh:
  assumes "indicator_cache c i = None"
  shows "get_indicator_data ftp_get c i =
           (ftp_get i, c\<lparr>indicator_cache := (indicator_cache c)(i \<mapsto> ftp_get i)\<rparr>)"
  using assms by (simp add: get_indicator_data_def Let_def)

lemma fetch_sample:
  "fst (get_indicator_data (\<lambda>_. sample_data) empty_cache i) = sample_data"
  by (simp add: get_indicator_data_def empty_cache_def)

lemma sample_icbs:
  "filter (\<lambda>r. Area_Type r = ''ICBs'') sample_data =
     [mk_row ''E54000008'' ''Cheshire'' ''ICBs'' ''2022/23'' (Some 40) (Some 400) (Some 1000),
      mk_row ''E54000008'' ''Cheshire'' ''ICBs'' ''2023/24'' (Some (85 / 2)) (Some 425) (Some 1000),
      mk_row ''E54000010'' ''Kent'' ''ICBs'' ''2023/24'' None None None,
      mk_row ''E54000011'' ''Shropshire'' ''ICBs'' ''2023/24'' (Some (221 / 4)) (Some 1105) (Some 2000),
      mk_row ''E54000013'' ''Lincolnshire'' ''ICBs'' ''2023/24'' (Some 38) (Some 570) (Some 1500)]"
  by (simp add: sample_data_def mk_row_def)

lemma sample_gps: "filter (\<lambda>r. Area_Type r = ''GPs'') sample_data = []"
  by (simp add: sample_data_def mk_row_def)

text \<open>
  C1. When the fetched dataset has a row of the area type, \<open>filter_data\<close> without a time
  period resolves the period to the greatest period string among the rows of the area type,
  keeps the rows of that period, and returns them with the period. (The greatest period
  always has a row, so the second check cannot fail here.)
\<close>

theorem filter_data_latest_period:
  assumes "data = fst (get_indicator_data ftp_get c indicator_id)"
    and "df = filter (\<lambda>r. Area_Type r = area_type) data"
    and "df \<noteq> []"
  shows "fst (filter_data ftp_get c indicator_id area_type None) =
           Inr (filter (\<lambda>r. Time_period r = Max (Time_period ` set df)) df,
                Max (Time_period ` set df))"
  unfolding fst_filter_data assms(1)[symmetric] using assms(2,3) by (rule filter_rows_latest)

theorem filter_data_latest_period_witness:
  "fst (filter_data (\<lambda>_. sample_data) empty_cache 94146 ''ICBs'' None) =
     Inr ([mk_row ''E54000008'' ''Cheshire'' ''ICBs'' ''2023/24'' (Some (85 / 2)) (Some 425) (Some 1000),
           mk_row ''E54000010'' ''Kent'' ''ICBs'' ''2023/24'' None None None,
           mk_row ''E54000011'' ''Shropshire'' ''ICBs'' ''2023/24'' (Some (221 / 4)) (Some 1105) (Some 2000),
           mk_row ''E54000013'' ''Lincolnshire'' ''ICBs'' ''2023/24'' (Some 38) (Some 570) (Some 1500)],
          ''2023/24'')"
  using filter_data_latest_period[OF fetch_sample[symmetric] sample_icbs[symmetric]]
  by (simp add: mk_row_def)

text \<open>
  C2. With \<open>df\<close> the rows of the requested area type and \<open>p\<close> the resolved period:
  \<open>filter_data\<close> fails with status 404 and the area-type message when \<open>df\<close> is empty,
  whatever the time period argument (no period is resolved); it fails with status 404 and the
  time-period message when \<open>df\<close> has rows but none of period \<open>p\<close>; in every other case it
  returns the rows of period \<open>p\<close> with \<open>p\<close>, and no error.
\<close>

theorem filter_data_not_found:
  assumes "data = fst (get_indicator_data ftp_get c indicator_id)"
    and "df = filter (\<lambda>r. Area_Type r = area_type) data"
    and "p = resolved_period df time_period"
  shows "(df = [] \<longrightarrow>
            fst (filter_data ftp_get c indicator_id area_type time_period) =
              Inl (HTTPException 404 (''No data for area type '' @ [CHR 0x27] @ area_type @ [CHR 0x27])))
       \<and> (df \<noteq> [] \<and> filter (\<lambda>r. Time_period r = p) df = [] \<longrightarrow>
            fst (filter_data ftp_get c indicator_id area_type time_period) =
              Inl (HTTPException 404 (''No data for time period '' @ [CHR 0x27] @ p @ [CHR 0x27])))
       \<and> (df \<noteq> [] \<and> filter (\<lambda>r. Time_period r = p) df \<noteq> [] \<longrightarrow>
            fst (filter_data ftp_get c indicator_id area_type time_period) =
              Inr (filter (\<lambda>r. Time_period r = p) df, p))"
proof (cases "df = []")
  case True
  then have "filter (\<lambda>r. Area_Type r = area_type) (fst (get_indicator_data ftp_get c indicator_id)) = []"
    using assms(1,2) by simp
  then show ?thesis
    using True unfolding fst_filter_data by (simp add: filter_rows_Nil)
next
  case False
  have "df = filter (\<lambda>r. Area_Type r = area_type) (fst (get_indicator_data ftp_get c indicator_id))"
    using assms(1,2) by simp
  from filter_rows_Cons[OF this False, of time_period] show ?thesis
    using False unfolding fst_filter_data assms(3)[symmetric] by simp
qed

theorem filter_data_not_found_witness:
  "fst (filter_data (\<lambda>_. sample_data) empty_cache 94146 ''GPs'' (Some ''2023/24'')) =
     Inl (HTTPException 404 (''No data for area type '' @ [CHR 0x27] @ ''GPs'' @ [CHR 0x27]))
   \<and> fst (filter_data (\<lambda>_. sample_data) empty_cache 94146 ''ICBs'' (Some ''2019/20'')) =
     Inl (HTTPException 404 (''No data for time period '' @ [CHR 0x27] @ ''2019/20'' @ [CHR 0x27]))
   \<and> fst (filter_data (\<lambda>_. sample_data) empty_cache 94146 ''ICBs'' (Some ''2022/23'')) =
     Inr ([mk_row ''E54000008'' ''Cheshire'' ''ICBs'' ''2022/23'' (Some 40) (Some 400) (Some 1000)],
          ''2022/23'')"
  using filter_data_not_found[OF fetch_sample[symmetric] sample_gps[symmetric] refl,
          of 94146 "Some ''2023/24''"]
    filter_data_not_found[OF fetch_sample[symmetric] sample_icbs[symmetric] refl,
          of 94146 "Some ''2019/20''"]
    filter_data_not_found[OF fetch_sample[symmetric] sample_icbs[symmetric] refl,
          of 94146 "Some ''2022/23''"]
  by (simp add: mk_row_def resolved_period_def)

section \<open>The reference endpoint\<close>

lemma fst_list_time_periods:
  "fst (list_time_periods ftp_get c i a) =
     (let df = filter (\<lambda>r. Area_Type r = area_type_value a)
                 (fst (get_indicator_data ftp_get c (indicator_value i)));
          periods = rev (sort (remdups (map Time_period df)))
      in Inr \<lparr>time_periods = periods,
              latest = (case periods of [] \<Rightarrow> None | p # _ \<Rightarrow> Some p)\<rparr>)"
  by (simp add: list_time_periods_def split_beta Let_def)

text \<open>
  C10. When no row of the dataset has the requested area type, \<open>/time-periods\<close> does not
  fail: it returns the empty list of periods and no latest period, where \<open>filter_data\<close> on
  the same request fails with status 404.
\<close>

theorem list_time_periods_no_rows:
  assumes "data = fst (get_indicator_data ftp_get c (indicator_value indicator_id))"
    and "filter (\<lambda>r. Area_Type r = area_type_value area_type) data = []"
  shows "fst (list_time_periods ftp_get c indicator_id area_type) =
           Inr \<lparr>time_periods = [], latest = None\<rparr>
       \<and> fst (filter_data ftp_get c (indicator_value indicator_id)
                (area_type_value area_type) time_period) =
           Inl (HTTPException 404
                  (''No data for area type '' @ [CHR 0x27] @ area_type_value area_type @ [CHR 0x27]))"
proof -
  have e: "filter (\<lambda>r. Area_Type r = area_type_value area_type)
             (fst (get_indicator_data ftp_get c (indicator_value indicator_id))) = []"
    using assms by simp
  have "fst (list_time_periods ftp_get c indicator_id area_type) =
          Inr \<lparr>time_periods = [], latest = None\<rparr>"
    unfolding fst_list_time_periods e by simp
  moreover have "fst (filter_data ftp_get c (indicator_value indicator_id)
                (area_type_value area_type) time_period) =
           Inl (HTTPException 404
                  (''No data for area type '' @ [CHR 0x27] @ area_type_value area_type @ [CHR 0x27]))"
    unfolding fst_filter_data using e by (rule filter_rows_Nil)
  ultimately show ?thesis by simp
qed

lemma sample_gps_enum: "filter (\<lambda>r. Area_Type r = area_type_value GPS) sample_data = []"
  by (simp add: sample_data_def mk_row_def)

theorem list_time_periods_no_rows_witness:
  "fst (list_time_periods (\<lambda>_. sample_data) empty_cache TYPE1_9_CARE_PROCESSES GPS) =
     Inr \<lparr>time_periods = [], latest = None\<rparr>
   \<and> fst (filter_data (\<lambda>_. sample_data) empty_cache 94146 ''GPs'' None) =
     Inl (HTTPException 404 (''No data for area type '' @ [CHR 0x27] @ ''GPs'' @ [CHR 0x27]))"
  using list_time_periods_no_rows[OF fetch_sample[symmetric] sample_gps_enum,
          of TYPE1_9_CARE_PROCESSES None]
  by simp

lemma sample_icbs_enum:
  "filter (\<lambda>r. Area_Type r = area_type_value ICBS) sample_data =
     filter (\<lambda>r. Area_Type r = ''ICBs'') sample_data"
  by simp

lemma sample_filter_data_latest:
  "fst (filter_data (\<lambda>_. sample_data) empty_cache (indicator_value TYPE1_9_CARE_PROCESSES)
          (area_type_value ICBS) None) =
     Inr ([mk_row ''E54000008'' ''Cheshire'' ''ICBs'' ''2023/24'' (Some (85 / 2)) (Some 425) (Some 1000),
           mk_row ''E54000010'' ''Kent'' ''ICBs'' ''2023/24'' None None None,
           mk_row ''E54000011'' ''Shropshire'' ''ICBs'' ''2023/24'' (Some (221 / 4)) (Some 1105) (Some 2000),
           mk_row ''E54000013'' ''Lincolnshire'' ''ICBs'' ''2023/24'' (Some 38) (Some 570) (Some 1500)],
          ''2023/24'')"
  unfolding fst_filter_data fetch_sample
  using filter_rows_latest[OF sample_icbs[symmetric]]
  by (simp add: mk_row_def)

section \<open>Correlation\<close>

lemma get_correlation_Inl:
  assumes "filter_data ftp_get c (indicator_value i) (area_type_value a) tp = (Inl e, c')"
  shows "get_correlation ftp_get pearsonr c i a tp = (Inl e, c')"
  unfolding get_correlation_def assms by simp

lemma get_correlation_few:
  assumes "filter_data ftp_get c (indicator_value i) (area_type_value a) tp = (Inr (df, period), c')"
    and "length (dropna_Value_Denominator df) < 3"
  shows "get_correlation ftp_get pearsonr c i a tp =
           (Inl (HTTPException 400 ''Insufficient data for correlation analysis''), c')"
  unfolding get_correlation_def assms(1) using assms(2) by (simp add: Let_def)

lemma get_correlation_enough:
  assumes "filter_data ftp_get c (indicator_value i) (area_type_value a) tp = (Inr (df, period), c')"
    and "\<not> length (dropna_Value_Denominator df) < 3"
    and "pearsonr (List.map_filter Denominator (dropna_Value_Denominator df))
                  (List.map_filter Value (dropna_Value_Denominator df)) = (r, p)"
  shows "get_correlation ftp_get pearsonr c i a tp =
           (Inr \<lparr>correlation_indicator = INDICATOR_INFO i,
                 correlation_area_type = area_type_value a,
                 correlation_time_period = period,
                 correlation_correlation =
                   \<lparr>corr_r = py_round r 4,
                    corr_p_value = py_round p 4,
                    corr_significant = float_lt p (5 / 100),
                    corr_interpretation = interpretation_text r p\<rparr>\<rparr>, c')"
  unfolding get_correlation_def assms(1) using assms(2,3) by (simp add: Let_def)

lemma get_correlation_succeeds:
  assumes "filter_data ftp_get c (indicator_value i) (area_type_value a) tp = (Inr (df, period), c')"
    and "\<not> length (dropna_Value_Denominator df) < 3"
  shows "\<exists>resp. get_correlation ftp_get pearsonr c i a tp = (Inr resp, c')"
proof -
  obtain r p where "pearsonr (List.map_filter Denominator (dropna_Value_Denominator df))
                  (List.map_filter Value (dropna_Value_Denominator df)) = (r, p)"
    by (cases "pearsonr (List.map_filter Denominator (dropna_Value_Denominator df))
                  (List.map_filter Value (dropna_Value_Denominator df))") auto
  from get_correlation_enough[where pearsonr = pearsonr and r = r and p = p, OF assms this]
  show ?thesis by blast
qed

lemma sample_filter_data_2022:
  "filter_data (\<lambda>_. sample_data) empty_cache (indicator_value TYPE1_9_CARE_PROCESSES)
          (area_type_value ICBS) (Some ''2022/23'') =
     (Inr ([mk_row ''E54000008'' ''Cheshire'' ''ICBs'' ''2022/23'' (Some 40) (Some 400) (Some 1000)],
           ''2022/23''),
      \<lparr>indicator_cache = [94146 \<mapsto> sample_data], boundaries_cache = None\<rparr>)"
proof -
  have "fst (filter_data (\<lambda>_. sample_data) empty_cache (indicator_value TYPE1_9_CARE_PROCESSES)
          (area_type_value ICBS) (Some ''2022/23'')) =
     Inr ([mk_row ''E54000008'' ''Cheshire'' ''ICBs'' ''2022/23'' (Some 40) (Some 400) (Some 1000)],
           ''2022/23'')"
    unfolding fst_filter_data fetch_sample
    using filter_rows_Cons[OF sample_icbs[symmetric], of "Some ''2022/23''"]
    by (simp add: mk_row_def resolved_period_def)
  moreover have "snd (filter_data (\<lambda>_. sample_data) empty_cache (indicator_value TYPE1_9_CARE_PROCESSES)
          (area_type_value ICBS) (Some ''2022/23'')) =
       \<lparr>indicator_cache = [94146 \<mapsto> sample_data], boundaries_cache = None\<rparr>"
    unfolding snd_filter_data by (simp add: get_indicator_data_def empty_cache_def)
  ultimately show ?thesis by (simp add: prod_eq_iff)
qed

text \<open>
  C7, as the code has it. Once \<open>filter_data\<close> has returned rows, \<open>/correlation\<close> fails, with
  status 400 and the insufficient-data message, exactly when fewer than 3 rows have both a
  value and a denominator; it then returns no result. The cache it leaves is the cache the
  data access layer left: the one it was given when the dataset of the indicator was cached,
  and that cache extended by the fetched dataset of the indicator when it was not.
\<close>

theorem get_correlation_insufficient:
  assumes "filter_data ftp_get c (indicator_value indicator_id) (area_type_value area_type)
             time_period = (Inr (df, period), c')"
  shows "(fst (get_correlation ftp_get pearsonr c indicator_id area_type time_period) =
             Inl (HTTPException 400 ''Insufficient data for correlation analysis'')
           \<longleftrightarrow> length (dropna_Value_Denominator df) < 3)
       \<and> ((\<exists>e. fst (get_correlation ftp_get pearsonr c indicator_id area_type time_period) = Inl e)
           \<longleftrightarrow> length (dropna_Value_Denominator df) < 3)
       \<and> snd (get_correlation ftp_get pearsonr c indicator_id area_type time_period) =
           snd (get_indicator_data ftp_get c (indicator_value indicator_id))
       \<and> (indicator_cache c (indicator_value indicator_id) \<noteq> None \<longrightarrow>
            snd (get_correlation ftp_get pearsonr c indicator_id area_type time_period) = c)
       \<and> (indicator_cache c (indicator_value indicator_id) = None \<longrightarrow>
            snd (get_correlation ftp_get pearsonr c indicator_id area_type time_period) =
              c\<lparr>indicator_cache := (indicator_cache c)
                   (indicator_value indicator_id \<mapsto> ftp_get (indicator_value indicator_id))\<rparr>)"
proof -
  let ?g = "get_correlation ftp_get pearsonr c indicator_id area_type time_period"
  let ?few = "length (dropna_Value_Denominator df) < 3"
  have c': "c' = snd (get_indicator_data ftp_get c (indicator_value indicator_id))"
    using assms snd_filter_data[of ftp_get c "indicator_value indicator_id"
                                  "area_type_value area_type" time_period]
    by simp
  have few: "?few \<Longrightarrow> ?g = (Inl (HTTPException 400 ''Insufficient data for correlation analysis''), c')"
    using assms by (rule get_correlation_few)
  have enough: "\<not> ?few \<Longrightarrow> \<exists>resp. ?g = (Inr resp, c')"
    using assms by (rule get_correlation_succeeds)
  have 1: "fst ?g = Inl (HTTPException 400 ''Insufficient data for correlation analysis'') \<longleftrightarrow> ?few"
    using few enough by (cases ?few) auto
  have 2: "(\<exists>e. fst ?g = Inl e) \<longleftrightarrow> ?few"
    using few enough by (cases ?few) auto
  have 3: "snd ?g = snd (get_indicator_data ftp_get c (indicator_value indicator_id))"
    using few enough c' by (cases ?few) auto
  have 4: "indicator_cache c (indicator_value indicator_id) \<noteq> None \<longrightarrow> snd ?g = c"
    unfolding 3 by (auto simp: get_indicator_data_cached)
  have 5: "indicator_cache c (indicator_value indicator_id) = None \<longrightarrow>
            snd ?g = c\<lparr>indicator_cache := (indicator_cache c)
                   (indicator_value indicator_id \<mapsto> ftp_get (indicator_value indicator_id))\<rparr>"
    unfolding 3 by (simp add: get_indicator_data_fresh)
  from 1 2 3 4 5 show ?thesis by blast
qed

theorem get_correlation_cache_counterexample:
  "fst (get_correlation (\<lambda>_. sample_data) (\<lambda>x y. (None, None)) empty_cache
          TYPE1_9_CARE_PROCESSES ICBS (Some ''2022/23'')) =
     Inl (HTTPException 400 ''Insufficient data for correlation analysis'')
   \<and> indicator_cache empty_cache 94146 = None
   \<and> indicator_cache (snd (get_correlation (\<lambda>_. sample_data) (\<lambda>x y. (None, None)) empty_cache
          TYPE1_9_CARE_PROCESSES ICBS (Some ''2022/23''))) 94146 = Some sample_data"
proof -
  have "length (dropna_Value_Denominator
          [mk_row ''E54000008'' ''Cheshire'' ''ICBs'' ''2022/23'' (Some 40) (Some 400) (Some 1000)]) < 3"
    by (simp add: dropna_Value_Denominator_def)
  from get_correlation_few[where pearsonr = "\<lambda>x y. (None, None)", OF sample_filter_data_2022 this]
  show ?thesis by (simp add: empty_cache_def)
qed

theorem get_correlation_insufficient_witness:
  "fst (get_correlation (\<lambda>_. sample_data) (\<lambda>x y. (None, None)) empty_cache
          TYPE1_9_CARE_PROCESSES ICBS (Some ''2022/23'')) =
     Inl (HTTPException 400 ''Insufficient data for correlation analysis'')
   \<and> snd (get_correlation (\<lambda>_. sample_data) (\<lambda>x y. (None, None)) empty_cache
          TYPE1_9_CARE_PROCESSES ICBS (Some ''2022/23'')) =
     \<lparr>indicator_cache = [94146 \<mapsto> sample_data], boundaries_cache = None\<rparr>"
proof -
  have few: "length (dropna_Value_Denominator
          [mk_row ''E54000008'' ''Cheshire'' ''ICBs'' ''2022/23'' (Some 40) (Some 400) (Some 1000)]) < 3"
    by (simp add: dropna_Value_Denominator_def)
  have fresh: "snd (get_indicator_data (\<lambda>_. sample_data) empty_cache
                 (indicator_value TYPE1_9_CARE_PROCESSES)) =
               \<lparr>indicator_cache = [94146 \<mapsto> sample_data], boundaries_cache = None\<rparr>"
    by (simp add: get_indicator_data_def empty_cache_def)
  from get_correlation_insufficient[where pearsonr = "\<lambda>x y. (None, None)",
         OF sample_filter_data_2022]
  show ?thesis using few fresh by simp
qed

lemma round_half_even_nearest:
  shows "\<bar>of_int (round_half_even q) - q\<bar> \<le> 1 / 2"
    and "\<bar>of_int (round_half_even q) - q\<bar> = 1 / 2 \<Longrightarrow> even (round_half_even q)"
proof -
  let ?f = "\<lfloor>q\<rfloor>"
  let ?d = "q - of_int ?f"
  have d: "0 \<le> ?d" "?d < 1" by linarith+
  consider (lt) "?d < 1 / 2" | (gt) "1 / 2 < ?d" | (eq) "?d = 1 / 2" by linarith
  then have "\<bar>of_int (round_half_even q) - q\<bar> \<le> 1 / 2
           \<and> (\<bar>of_int (round_half_even q) - q\<bar> = 1 / 2 \<longrightarrow> even (round_half_even q))"
  proof cases
    case lt
    then have r: "round_half_even q = ?f" by (simp add: round_half_even_def Let_def)
    have "\<bar>of_int ?f - q\<bar> = ?d" using d by linarith
    then show ?thesis unfolding r using lt by linarith
  next
    case gt
    then have r: "round_half_even q = ?f + 1" by (simp add: round_half_even_def Let_def)
    have "\<bar>of_int (?f + 1) - q\<bar> = 1 - ?d" using d by simp
    then show ?thesis unfolding r using gt by linarith
  next
    case eq
    show ?thesis
    proof (cases "even ?f")
      case True
      then have r: "round_half_even q = ?f" using eq by (simp add: round_half_even_def Let_def)
      have "\<bar>of_int ?f - q\<bar> = ?d" using d by linarith
      then show ?thesis unfolding r using eq True by simp
    next
      case False
      then have r: "round_half_even q = ?f + 1" using eq by (simp add: round_half_even_def Let_def)
      have "\<bar>of_int (?f + 1) - q\<bar> = 1 - ?d" using d by simp
      then show ?thesis unfolding r using eq False by simp
    qed
  qed
  then show "\<bar>of_int (round_half_even q) - q\<bar> \<le> 1 / 2"
    and "\<bar>of_int (round_half_even q) - q\<bar> = 1 / 2 \<Longrightarrow> even (round_half_even q)"
    by simp_all
qed

lemma round_nd_rounded:
  shows "of_int \<lfloor>round_nd nd x * 10 ^ nd\<rfloor> = round_nd nd x * 10 ^ nd"
    and "\<bar>round_nd nd x - x\<bar> * (2 * 10 ^ nd) \<le> 1"
    and "\<bar>round_nd nd x - x\<bar> * (2 * 10 ^ nd) = 1 \<Longrightarrow> even \<lfloor>round_nd nd x * 10 ^ nd\<rfloor>"
proof -
  let ?R = "round_half_even (x * 10 ^ nd)"
  have pos: "(0::real) < 10 ^ nd" by simp
  have y: "round_nd nd x * 10 ^ nd = of_int ?R"
    by (simp add: round_nd_def)
  have fl: "\<lfloor>round_nd nd x * 10 ^ nd\<rfloor> = ?R"
    unfolding y by simp
  show "of_int \<lfloor>round_nd nd x * 10 ^ nd\<rfloor> = round_nd nd x * 10 ^ nd"
    unfolding y by simp
  have "\<bar>round_nd nd x - x\<bar> * 10 ^ nd = \<bar>(round_nd nd x - x) * 10 ^ nd\<bar>"
    by (simp add: abs_mult)
  also have "\<dots> = \<bar>of_int ?R - x * 10 ^ nd\<bar>"
    unfolding left_diff_distrib y by (rule refl)
  finally have a0: "\<bar>round_nd nd x - x\<bar> * (2 * 10 ^ nd) = 2 * \<bar>of_int ?R - x * 10 ^ nd\<bar>"
    by simp
  define e where "e = \<bar>of_int ?R - x * 10 ^ nd\<bar>"
  have a: "\<bar>round_nd nd x - x\<bar> * (2 * 10 ^ nd) = 2 * e"
    unfolding e_def by (rule a0)
  have e: "e \<le> 1 / 2"
    unfolding e_def by (rule round_half_even_nearest(1))
  show "\<bar>round_nd nd x - x\<bar> * (2 * 10 ^ nd) \<le> 1"
    unfolding a using e by linarith
  show "even \<lfloor>round_nd nd x * 10 ^ nd\<rfloor>" if "\<bar>round_nd nd x - x\<bar> * (2 * 10 ^ nd) = 1"
  proof -
    have "e = 1 / 2" using that unfolding a by linarith
    then have "\<bar>of_int ?R - x * 10 ^ nd\<bar> = 1 / 2" unfolding e_def .
    then show ?thesis unfolding fl by (rule round_half_even_nearest(2))
  qed
qed

lemma rounded_to_py_round: "rounded_to nd v (py_round v nd)"
proof (cases v)
  case None
  then show ?thesis by (simp add: rounded_to_def py_round_def)
next
  case (Some x)
  show ?thesis
    unfolding Some rounded_to_def py_round_def option.map option.case
    using round_nd_rounded[of nd x] by blast
qed

lemma interpretation_text_cases:
  assumes "p = None \<longrightarrow> r = None"
  shows "interpretation_text r p =
     (if float_ge p (5 / 100)
      then ''No significant relationship between population size and care quality.''
      else if float_lt p (5 / 100) \<and> float_gt r (3 / 10)
      then ''Larger populations tend to have better care quality.''
      else if float_lt p (5 / 100) \<and> float_lt r (- (3 / 10))
      then ''Larger populations tend to have worse care quality.''
      else ''Weak relationship between population size and care quality.'')"
  using assms
  by (cases p; cases r)
     (auto simp: interpretation_text_def float_ge_def float_lt_def float_gt_def)

text \<open>
  C8. With \<open>(r, p)\<close> the result of \<open>pearsonr\<close> on the denominators and values of the complete
  rows (at least 3), where \<open>p\<close> is NaN only if \<open>r\<close> is: the interpretation is the
  no-significant-relationship text when \<open>p \<ge> 0.05\<close>, the better-quality text when
  \<open>p < 0.05\<close> and \<open>r > 0.3\<close>, the worse-quality text when \<open>p < 0.05\<close> and \<open>r < -0.3\<close>, and the
  weak-relationship text otherwise; the returned \<open>r\<close> and \<open>p_value\<close> are \<open>r\<close> and \<open>p\<close> rounded to
  4 decimals (a multiple of \<open>0.0001\<close> nearest to the number, the even multiple at a tie; NaN
  stays NaN), which is what \<open>py_round\<close> computes; and \<open>significant\<close> is \<open>p < 0.05\<close>.
\<close>

theorem get_correlation_result:
  assumes "filter_data ftp_get c (indicator_value indicator_id) (area_type_value area_type)
             time_period = (Inr (df, period), c')"
    and "3 \<le> length (dropna_Value_Denominator df)"
    and "pearsonr (List.map_filter Denominator (dropna_Value_Denominator df))
                  (List.map_filter Value (dropna_Value_Denominator df)) = (r, p)"
    and "p = None \<longrightarrow> r = None"
  shows "\<exists>resp. fst (get_correlation ftp_get pearsonr c indicator_id area_type time_period) = Inr resp
      \<and> corr_interpretation (correlation_correlation resp) =
          (if float_ge p (5 / 100)
           then ''No significant relationship between population size and care quality.''
           else if float_lt p (5 / 100) \<and> float_gt r (3 / 10)
           then ''Larger populations tend to have better care quality.''
           else if float_lt p (5 / 100) \<and> float_lt r (- (3 / 10))
           then ''Larger populations tend to have worse care quality.''
           else ''Weak relationship between population size and care quality.'')
      \<and> rounded_to 4 r (corr_r (correlation_correlation resp))
      \<and> rounded_to 4 p (corr_p_value (correlation_correlation resp))
      \<and> corr_r (correlation_correlation resp) = py_round r 4
      \<and> corr_p_value (correlation_correlation resp) = py_round p 4
      \<and> corr_significant (correlation_correlation resp) = float_lt p (5 / 100)"
proof -
  have "\<not> length (dropna_Value_Denominator df) < 3"
    using assms(2) by simp
  from get_correlation_enough[where pearsonr = pearsonr and r = r and p = p, OF assms(1) this assms(3)]
  show ?thesis
    using interpretation_text_cases[OF assms(4)] rounded_to_py_round[of 4 r] rounded_to_py_round[of 4 p]
    by simp
qed

lemma sample_filter_data_latest_pair:
  "filter_data (\<lambda>_. sample_data) empty_cache (indicator_value TYPE1_9_CARE_PROCESSES)
          (area_type_value ICBS) None =
     (Inr ([mk_row ''E54000008'' ''Cheshire'' ''ICBs'' ''2023/24'' (Some (85 / 2)) (Some 425) (Some 1000),
            mk_row ''E54000010'' ''Kent'' ''ICBs'' ''2023/24'' None None None,
            mk_row ''E54000011'' ''Shropshire'' ''ICBs'' ''2023/24'' (Some (221 / 4)) (Some 1105) (Some 2000),
            mk_row ''E54000013'' ''Lincolnshire'' ''ICBs'' ''2023/24'' (Some 38) (Some 570) (Some 1500)],
           ''2023/24''),
      snd (filter_data (\<lambda>_. sample_data) empty_cache (indicator_value TYPE1_9_CARE_PROCESSES)
          (area_type_value ICBS) None))"
  using sample_filter_data_latest by (simp add: prod_eq_iff)

theorem get_correlation_result_witness:
  "\<exists>resp. fst (get_correlation (\<lambda>_. sample_data)
                 (\<lambda>x y. (Some (- (87654 / 100000)), Some (12345 / 1000000)))
                 empty_cache TYPE1_9_CARE_PROCESSES ICBS None) = Inr resp
      \<and> corr_interpretation (correlation_correlation resp) =
          ''Larger populations tend to have worse care quality.''
      \<and> corr_r (correlation_correlation resp) = Some (- (8765 / 10000))
      \<and> corr_p_value (correlation_correlation resp) = Some (123 / 10000)
      \<and> rounded_to 4 (Some (- (87654 / 100000))) (Some (- (8765 / 10000)))
      \<and> rounded_to 4 (Some (12345 / 1000000)) (Some (123 / 10000))
      \<and> corr_significant (correlation_correlation resp) = True"
proof -
  have r4: "py_round (Some (- (87654 / 100000))) 4 = Some (- (8765 / 10000))"
    by (simp add: py_round_def round_nd_def round_half_even_def)
  have p4: "py_round (Some (12345 / 1000000)) 4 = Some (123 / 10000)"
    by (simp add: py_round_def round_nd_def round_half_even_def)
  have n: "3 \<le> length (dropna_Value_Denominator
            [mk_row ''E54000008'' ''Cheshire'' ''ICBs'' ''2023/24'' (Some (85 / 2)) (Some 425) (Some 1000),
             mk_row ''E54000010'' ''Kent'' ''ICBs'' ''2023/24'' None None None,
             mk_row ''E54000011'' ''Shropshire'' ''ICBs'' ''2023/24'' (Some (221 / 4)) (Some 1105) (Some 2000),
             mk_row ''E54000013'' ''Lincolnshire'' ''ICBs'' ''2023/24'' (Some 38) (Some 570) (Some 1500)])"
    by (simp add: dropna_Value_Denominator_def mk_row_def del: not_None_eq)
  have nan: "Some (12345 / 1000000 :: real) = None \<longrightarrow> Some (- (87654 / 100000) :: real) = None"
    by simp
  have ge: "\<not> float_ge (Some (12345 / 1000000)) (5 / 100)"
    and lt: "float_lt (Some (12345 / 1000000)) (5 / 100)"
    and gt: "\<not> float_gt (Some (- (87654 / 100000))) (3 / 10)"
    and ltr: "float_lt (Some (- (87654 / 100000))) (- (3 / 10))"
    by (simp_all add: float_ge_def float_lt_def float_gt_def)
  from get_correlation_result[where pearsonr = "\<lambda>x y. (Some (- (87654 / 100000)), Some (12345 / 1000000))",
         OF sample_filter_data_latest_pair n refl nan]
  obtain resp where
    "fst (get_correlation (\<lambda>_. sample_data)
                 (\<lambda>x y. (Some (- (87654 / 100000)), Some (12345 / 1000000)))
                 empty_cache TYPE1_9_CARE_PROCESSES ICBS None) = Inr resp"
    "corr_interpretation (correlation_correlation resp) =
          ''Larger populations tend to have worse care quality.''"
    "rounded_to 4 (Some (- (87654 / 100000))) (corr_r (correlation_correlation resp))"
    "rounded_to 4 (Some (12345 / 1000000)) (corr_p_value (correlation_correlation resp))"
    "corr_r (correlation_correlation resp) = Some (- (8765 / 10000))"
    "corr_p_value (correlation_correlation resp) = Some (123 / 10000)"
    "corr_significant (correlation_correlation resp) = True"
    unfolding r4 p4 using ge lt gt ltr by (auto simp only: if_False if_True simp_thms)
  then show ?thesis by (intro exI[of _ resp]) simp
qed

section \<open>The choropleth map\<close>

lemma set_plot_Some: "set (plot cmap (Some kw) rows) = patch_of cmap kw ` set rows"
proof (induction rows)
  case Nil
  show ?case by (simp add: plot_def)
next
  case (Cons m rows)
  have "set (plot cmap (Some kw) (m # rows)) =
          insert (patch_of cmap kw m) (set (plot cmap (Some kw) rows))"
    by (cases "m_Value m") (auto simp: plot_def patch_of_def)
  then show ?case using Cons.IH by simp
qed

lemma set_merge_Left:
  "set (merge Left gdf df) =
     (\<Union>b\<in>set gdf. if filter (\<lambda>r. Area_Code r = ICB23CD b) df = []
                    then {unmatched_row b}
                    else merge_row b ` set (filter (\<lambda>r. Area_Code r = ICB23CD b) df))"
proof -
  have "set (case filter (\<lambda>r. Area_Code r = ICB23CD b) df of
               [] \<Rightarrow> (if Left = Left then [unmatched_row b] else [])
             | ms \<Rightarrow> map (merge_row b) ms)
        = (if filter (\<lambda>r. Area_Code r = ICB23CD b) df = []
           then {unmatched_row b}
           else merge_row b ` set (filter (\<lambda>r. Area_Code r = ICB23CD b) df))" for b
    by (cases "filter (\<lambda>r. Area_Code r = ICB23CD b) df") simp_all
  then show ?thesis
    unfolding merge_def by (simp del: set_filter)
qed

lemma merge_Left_code:
  assumes "m \<in> set (merge Left gdf df)"
  shows "\<exists>b\<in>set gdf. m_ICB23CD m = ICB23CD b \<and> m_geometry m = geometry b
           \<and> (filter (\<lambda>r. Area_Code r = ICB23CD b) df = [] \<longrightarrow> m = unmatched_row b)"
  using assms unfolding set_merge_Left
  by (auto simp: merge_row_def unmatched_row_def split: if_splits)

lemma merge_Left_keeps:
  assumes "b \<in> set gdf"
  shows "\<exists>m\<in>set (merge Left gdf df). m_ICB23CD m = ICB23CD b \<and> m_geometry m = geometry b"
proof (cases "filter (\<lambda>r. Area_Code r = ICB23CD b) df = []")
  case True
  then have "unmatched_row b \<in> set (merge Left gdf df)"
    unfolding set_merge_Left using assms by force
  then show ?thesis by (force simp: unmatched_row_def)
next
  case False
  then obtain r where r: "r \<in> set (filter (\<lambda>r. Area_Code r = ICB23CD b) df)"
    by (cases "filter (\<lambda>r. Area_Code r = ICB23CD b) df") auto
  then have "merge_row b r \<in> set (merge Left gdf df)"
    unfolding set_merge_Left using assms False by force
  then show ?thesis by (force simp: merge_row_def)
qed

lemma merge_Left_unmatched:
  assumes "b \<in> set gdf" and "\<forall>r\<in>set df. Area_Code r \<noteq> ICB23CD b"
  shows "unmatched_row b \<in> set (merge Left gdf df)"
proof -
  have "filter (\<lambda>r. Area_Code r = ICB23CD b) df = []"
    using assms(2) by (simp add: filter_empty_conv)
  then show ?thesis
    unfolding set_merge_Left using assms(1) by force
qed

lemma generate_map_Inr:
  assumes "filter_data ftp_get c (indicator_value i) ''ICBs'' tp = (Inr (df, period), c')"
    and "get_boundaries read_file c' = (gdf, c'')"
  shows "\<exists>img. fst (generate_map ftp_get read_file c i tp cmap w h dpi title fmt) = Inr img
          \<and> set (image_patches img) =
              patch_of cmap \<lparr>mk_color = ''lightgrey'', mk_label = ''No data''\<rparr>
                ` set (merge Left gdf df)"
  unfolding generate_map_def assms(1) by (simp add: assms(2) Let_def set_plot_Some)

text \<open>
  C9. The join of \<open>/map\<close> is a left join on the area code, with the area type fixed to
  \<open>ICBs\<close>, and it keeps every boundary: each boundary of the boundary set has a patch in the
  image, and a boundary whose code matches no indicator row is drawn in the no-data fill
  \<open>lightgrey\<close>, which no fill of the colour map is; every patch of its code has that fill.
\<close>

theorem generate_map_keeps_boundaries:
  assumes "filter_data ftp_get c (indicator_value indicator_id) ''ICBs'' time_period
             = (Inr (df, period), c')"
    and "get_boundaries read_file c' = (gdf, c'')"
    and "b \<in> set gdf"
  shows "\<exists>img. fst (generate_map ftp_get read_file c indicator_id time_period cmap
                     figsize_width figsize_height dpi title fmt) = Inr img
      \<and> (\<exists>p\<in>set (image_patches img). patch_code p = ICB23CD b \<and> patch_geometry p = geometry b)
      \<and> ((\<forall>r\<in>set df. Area_Code r \<noteq> ICB23CD b) \<longrightarrow>
           \<lparr>patch_code = ICB23CD b, patch_geometry = geometry b,
            patch_fill = Missing_fill ''lightgrey''\<rparr> \<in> set (image_patches img)
           \<and> (\<forall>p\<in>set (image_patches img).
                 patch_code p = ICB23CD b \<longrightarrow>
                   patch_fill p = Missing_fill ''lightgrey''
                   \<and> (\<forall>cm v. patch_fill p \<noteq> Scaled cm v)))"
proof -
  let ?kw = "\<lparr>mk_color = ''lightgrey'', mk_label = ''No data''\<rparr>"
  obtain img where img: "fst (generate_map ftp_get read_file c indicator_id time_period cmap
                     figsize_width figsize_height dpi title fmt) = Inr img"
    and patches: "set (image_patches img) = patch_of cmap ?kw ` set (merge Left gdf df)"
    using generate_map_Inr[OF assms(1,2)] by blast
  obtain m where m: "m \<in> set (merge Left gdf df)" "m_ICB23CD m = ICB23CD b" "m_geometry m = geometry b"
    using merge_Left_keeps[OF assms(3)] by blast
  have kept: "\<exists>p\<in>set (image_patches img). patch_code p = ICB23CD b \<and> patch_geometry p = geometry b"
    unfolding patches using m by (force simp: patch_of_def)
  have nodata: "\<lparr>patch_code = ICB23CD b, patch_geometry = geometry b,
            patch_fill = Missing_fill ''lightgrey''\<rparr> \<in> set (image_patches img)"
    if un: "\<forall>r\<in>set df. Area_Code r \<noteq> ICB23CD b"
  proof -
    have "patch_of cmap ?kw (unmatched_row b) \<in> set (image_patches img)"
      unfolding patches using merge_Left_unmatched[OF assms(3) un] by (rule imageI)
    then show ?thesis by (simp add: patch_of_def unmatched_row_def)
  qed
  have allfill: "patch_fill p = Missing_fill ''lightgrey'' \<and> (\<forall>cm v. patch_fill p \<noteq> Scaled cm v)"
    if un: "\<forall>r\<in>set df. Area_Code r \<noteq> ICB23CD b"
      and p: "p \<in> set (image_patches img)" "patch_code p = ICB23CD b" for p
  proof -
    obtain m' where m': "m' \<in> set (merge Left gdf df)" "p = patch_of cmap ?kw m'"
      using p(1) unfolding patches by blast
    obtain b' where b': "b' \<in> set gdf" "m_ICB23CD m' = ICB23CD b'"
        "filter (\<lambda>r. Area_Code r = ICB23CD b') df = [] \<longrightarrow> m' = unmatched_row b'"
      using merge_Left_code[OF m'(1)] by blast
    have "ICB23CD b' = ICB23CD b"
      using p(2) m'(2) b'(2) by (simp add: patch_of_def)
    then have "filter (\<lambda>r. Area_Code r = ICB23CD b') df = []"
      using un by (simp add: filter_empty_conv)
    then have "m' = unmatched_row b'" using b'(3) by simp
    then show ?thesis
      unfolding m'(2) by (simp add: patch_of_def unmatched_row_def)
  qed
  from img kept nodata allfill show ?thesis by blast
qed

lemma sample_filter_data_map:
  "filter_data (\<lambda>_. sample_data) empty_cache (indicator_value TYPE1_9_CARE_PROCESSES) ''ICBs'' None =
     (Inr ([mk_row ''E54000008'' ''Cheshire'' ''ICBs'' ''2023/24'' (Some (85 / 2)) (Some 425) (Some 1000),
            mk_row ''E54000010'' ''Kent'' ''ICBs'' ''2023/24'' None None None,
            mk_row ''E54000011'' ''Shropshire'' ''ICBs'' ''2023/24'' (Some (221 / 4)) (Some 1105) (Some 2000),
            mk_row ''E54000013'' ''Lincolnshire'' ''ICBs'' ''2023/24'' (Some 38) (Some 570) (Some 1500)],
           ''2023/24''),
      \<lparr>indicator_cache = [94146 \<mapsto> sample_data], boundaries_cache = None\<rparr>)"
proof -
  have "snd (filter_data (\<lambda>_. sample_data) empty_cache (indicator_value TYPE1_9_CARE_PROCESSES)
               ''ICBs'' None) =
          \<lparr>indicator_cache = [94146 \<mapsto> sample_data], boundaries_cache = None\<rparr>"
    unfolding snd_filter_data by (simp add: get_indicator_data_def empty_cache_def)
  then show ?thesis
    using sample_filter_data_latest by (simp add: prod_eq_iff)
qed

lemma sample_get_boundaries:
  "get_boundaries sample_boundaries \<lparr>indicator_cache = [94146 \<mapsto> sample_data], boundaries_cache = None\<rparr>
     = (sample_boundaries,
        \<lparr>indicator_cache = [94146 \<mapsto> sample_data], boundaries_cache = Some sample_boundaries\<rparr>)"
  by (simp add: get_boundaries_def)

theorem generate_map_keeps_boundaries_witness:
  "\<exists>img. fst (generate_map (\<lambda>_. sample_data) sample_boundaries empty_cache TYPE1_9_CARE_PROCESSES
                 None RdYlGn 10 12 100 None PNG) = Inr img
      \<and> (\<exists>p\<in>set (image_patches img). patch_code p = ''E54000099'' \<and> patch_geometry p = 3)
      \<and> \<lparr>patch_code = ''E54000099'', patch_geometry = 3,
          patch_fill = Missing_fill ''lightgrey''\<rparr> \<in> set (image_patches img)"
proof -
  have b: "\<lparr>ICB23CD = ''E54000099'', geometry = 3\<rparr> \<in> set sample_boundaries"
    by (simp add: sample_boundaries_def)
  have un: "\<forall>r\<in>set [mk_row ''E54000008'' ''Cheshire'' ''ICBs'' ''2023/24'' (Some (85 / 2)) (Some 425) (Some 1000),
            mk_row ''E54000010'' ''Kent'' ''ICBs'' ''2023/24'' None None None,
            mk_row ''E54000011'' ''Shropshire'' ''ICBs'' ''2023/24'' (Some (221 / 4)) (Some 1105) (Some 2000),
            mk_row ''E54000013'' ''Lincolnshire'' ''ICBs'' ''2023/24'' (Some 38) (Some 570) (Some 1500)].
          Area_Code r \<noteq> ICB23CD \<lparr>ICB23CD = ''E54000099'', geometry = 3\<rparr>"
    by (simp add: mk_row_def)
  from generate_map_keeps_boundaries[OF sample_filter_data_map sample_get_boundaries b,
         of RdYlGn 10 12 100 None PNG]
  show ?thesis using un by fastforce
qed

section \<open>Summary statistics\<close>

lemma round_half_even_mono:
  assumes "x \<le> y"
  shows "round_half_even x \<le> round_half_even y"
proof -
  have fl: "\<lfloor>x\<rfloor> \<le> \<lfloor>y\<rfloor>" using assms by (rule floor_mono)
  have lo: "of_int \<lfloor>x\<rfloor> \<le> x" "x < of_int \<lfloor>x\<rfloor> + 1" "of_int \<lfloor>y\<rfloor> \<le> y" "y < of_int \<lfloor>y\<rfloor> + 1"
    by linarith+
  have up: "round_half_even x \<le> \<lfloor>x\<rfloor> + 1"
    by (simp add: round_half_even_def Let_def)
  have dn: "\<lfloor>y\<rfloor> \<le> round_half_even y"
    by (simp add: round_half_even_def Let_def)
  show ?thesis
  proof (cases "\<lfloor>x\<rfloor> = \<lfloor>y\<rfloor>")
    case True
    then show ?thesis
      using assms unfolding round_half_even_def Let_def by auto
  next
    case False
    then have "\<lfloor>x\<rfloor> + 1 \<le> \<lfloor>y\<rfloor>" using fl by linarith
    then show ?thesis using up dn by linarith
  qed
qed

lemma round_nd_mono:
  assumes "x \<le> y"
  shows "round_nd nd x \<le> round_nd nd y"
proof -
  have "x * 10 ^ nd \<le> y * 10 ^ nd"
    using assms by (simp add: mult_right_mono)
  then have "round_half_even (x * 10 ^ nd) \<le> round_half_even (y * 10 ^ nd)"
    by (rule round_half_even_mono)
  then have "(of_int (round_half_even (x * 10 ^ nd)) :: real) \<le> of_int (round_half_even (y * 10 ^ nd))"
    by simp
  then show ?thesis
    unfolding round_nd_def by (simp add: divide_right_mono)
qed

lemma interpolate_bounds:
  assumes "sorted s" and "s \<noteq> []" and "0 \<le> h" and "h \<le> real (length s - 1)"
  shows "s ! nat \<lfloor>h\<rfloor> \<le> interpolate s h"
    and "interpolate s h \<le> s ! min (nat \<lfloor>h\<rfloor> + 1) (length s - 1)"
proof -
  let ?lo = "nat \<lfloor>h\<rfloor>"
  let ?hi = "min (?lo + 1) (length s - 1)"
  have rlo: "real ?lo = of_int \<lfloor>h\<rfloor>" using assms(3) by simp
  have g0: "0 \<le> h - real ?lo" and g1: "h - real ?lo \<le> 1"
    unfolding rlo by linarith+
  have "of_int \<lfloor>h\<rfloor> \<le> real (length s - 1)" using assms(4) by linarith
  then have "\<lfloor>h\<rfloor> \<le> int (length s - 1)" by linarith
  then have lo_le: "?lo \<le> length s - 1" by linarith
  have hi_lt: "?hi < length s" using assms(2) by (cases s) auto
  have lohi: "?lo \<le> ?hi" using lo_le by simp
  have d: "s ! ?lo \<le> s ! ?hi"
    using assms(1) lohi hi_lt by (rule sorted_nth_mono)
  have i: "interpolate s h = s ! ?lo + (h - real ?lo) * (s ! ?hi - s ! ?lo)"
    by (simp add: interpolate_def Let_def)
  have "0 \<le> (h - real ?lo) * (s ! ?hi - s ! ?lo)"
    using g0 d by simp
  then show "s ! ?lo \<le> interpolate s h" unfolding i by linarith
  have "(h - real ?lo) * (s ! ?hi - s ! ?lo) \<le> 1 * (s ! ?hi - s ! ?lo)"
    using g1 d by (intro mult_right_mono) simp_all
  then have "(h - real ?lo) * (s ! ?hi - s ! ?lo) \<le> s ! ?hi - s ! ?lo"
    by simp
  then show "interpolate s h \<le> s ! ?hi" unfolding i by linarith
qed

lemma interpolate_mono:
  assumes "sorted s" and "s \<noteq> []" and "0 \<le> h" and "h \<le> h'" and "h' \<le> real (length s - 1)"
  shows "interpolate s h \<le> interpolate s h'"
proof (cases "\<lfloor>h\<rfloor> = \<lfloor>h'\<rfloor>")
  case True
  let ?lo = "nat \<lfloor>h\<rfloor>"
  let ?hi = "min (?lo + 1) (length s - 1)"
  have hi_lt: "?hi < length s" using assms(2) by (cases s) auto
  have "of_int \<lfloor>h'\<rfloor> \<le> real (length s - 1)" using assms(5) by linarith
  then have "\<lfloor>h'\<rfloor> \<le> int (length s - 1)" by linarith
  then have "?lo \<le> ?hi" using True by simp
  then have d: "s ! ?lo \<le> s ! ?hi"
    using assms(1) hi_lt by (intro sorted_nth_mono)
  have "(h - real ?lo) * (s ! ?hi - s ! ?lo) \<le> (h' - real ?lo) * (s ! ?hi - s ! ?lo)"
    using assms(4) d by (intro mult_right_mono) simp_all
  then show ?thesis
    using True by (simp add: interpolate_def Let_def)
next
  case False
  have h'0: "0 \<le> h'" using assms(3,4) by simp
  have "\<lfloor>h\<rfloor> \<le> \<lfloor>h'\<rfloor>" using assms(4) by (rule floor_mono)
  then have lt: "\<lfloor>h\<rfloor> + 1 \<le> \<lfloor>h'\<rfloor>" using False by linarith
  have "0 \<le> \<lfloor>h\<rfloor>" using assms(3) by simp
  then have step: "nat \<lfloor>h\<rfloor> + 1 \<le> nat \<lfloor>h'\<rfloor>" using lt by linarith
  have "of_int \<lfloor>h'\<rfloor> \<le> real (length s - 1)" using assms(5) by linarith
  then have "\<lfloor>h'\<rfloor> \<le> int (length s - 1)" by linarith
  then have lo'_le: "nat \<lfloor>h'\<rfloor> \<le> length s - 1" by linarith
  have lo'_lt: "nat \<lfloor>h'\<rfloor> < length s"
    using lo'_le assms(2) by (cases s) auto
  have "min (nat \<lfloor>h\<rfloor> + 1) (length s - 1) \<le> nat \<lfloor>h'\<rfloor>"
    using step by simp
  then have mid: "s ! min (nat \<lfloor>h\<rfloor> + 1) (length s - 1) \<le> s ! nat \<lfloor>h'\<rfloor>"
    using assms(1) lo'_lt by (intro sorted_nth_mono)
  have "h \<le> real (length s - 1)" using assms(4,5) by simp
  from interpolate_bounds(2)[OF assms(1,2,3) this]
       interpolate_bounds(1)[OF assms(1,2) h'0 assms(5)] mid
  show ?thesis by linarith
qed

lemma interpolate_at_index: "interpolate s (real k) = s ! k"
  by (simp add: interpolate_def Let_def)

lemma fold_min_sort:
  "fold min xs (x :: real) = sort (x # xs) ! 0"
proof -
  let ?s = "sort (x # xs)"
  have ne: "?s \<noteq> []" by (metis length_sort list.distinct(1) length_0_conv)
  have mem: "?s ! 0 \<in> set (x # xs)"
    using ne by (metis length_greater_0_conv nth_mem set_sort)
  have "\<forall>y\<in>set (x # xs). ?s ! 0 \<le> y"
  proof
    fix y assume "y \<in> set (x # xs)"
    then have "y \<in> set ?s" by (simp only: set_sort)
    then obtain i where "i < length ?s" "?s ! i = y" by (auto simp: in_set_conv_nth)
    then show "?s ! 0 \<le> y"
      using sorted_nth_mono[of ?s 0 i] by (simp del: sort_key_simps)
  qed
  then have "Min (set (x # xs)) = ?s ! 0"
    using mem by (intro Min_eqI) auto
  then show ?thesis by (simp only: Min.set_eq_fold)
qed

lemma fold_max_sort:
  "fold max xs (x :: real) = sort (x # xs) ! (length (x # xs) - 1)"
proof -
  let ?s = "sort (x # xs)"
  let ?n = "length (x # xs)"
  have len: "length ?s = ?n" by (rule length_sort)
  have mem: "?s ! (?n - 1) \<in> set (x # xs)"
    using len by (metis diff_less length_greater_0_conv list.distinct(1) nth_mem set_sort zero_less_one)
  have "\<forall>y\<in>set (x # xs). y \<le> ?s ! (?n - 1)"
  proof
    fix y assume "y \<in> set (x # xs)"
    then have "y \<in> set ?s" by (simp only: set_sort)
    then obtain i where i: "i < length ?s" "?s ! i = y" by (auto simp: in_set_conv_nth)
    then have "i \<le> ?n - 1" "?n - 1 < length ?s" using len by simp_all
    then show "y \<le> ?s ! (?n - 1)"
      using sorted_nth_mono[of ?s i "?n - 1"] i(2) by (simp del: sort_key_simps)
  qed
  then have "Max (set (x # xs)) = ?s ! (?n - 1)"
    using mem by (intro Max_eqI) auto
  then show ?thesis by (simp only: Max.set_eq_fold)
qed

lemma median_interpolate:
  assumes "s \<noteq> []"
  shows "(if odd (length s) then s ! (length s div 2)
          else (s ! (length s div 2 - 1) + s ! (length s div 2)) / 2)
         = interpolate s (real (length s - 1) * (1 / 2))"
proof (cases "odd (length s)")
  case True
  then obtain k where k: "length s = 2 * k + 1" by (auto elim: oddE)
  have "real (length s - 1) * (1 / 2) = real k" unfolding k by simp
  moreover have "length s div 2 = k" unfolding k by simp
  ultimately show ?thesis using True by (simp add: interpolate_at_index)
next
  case False
  then obtain j where j: "length s = 2 * j" by (auto elim: evenE)
  have "length s \<noteq> 0" using assms by simp
  then have "j \<noteq> 0" unfolding j by simp
  then obtain k where k: "j = Suc k" by (cases j) auto
  have n: "length s = 2 * k + 2" unfolding j k by simp
  have h: "real (length s - 1) * (1 / 2) = real k + 1 / 2" unfolding n by (simp add: field_simps)
  have fl: "\<lfloor>real k + 1 / 2\<rfloor> = int k" by linarith
  have "interpolate s (real k + 1 / 2) = s ! k + (1 / 2) * (s ! (k + 1) - s ! k)"
    unfolding interpolate_def Let_def fl n by simp
  also have "\<dots> = (s ! k + s ! (k + 1)) / 2" by (simp add: field_simps)
  finally have "interpolate s (real (length s - 1) * (1 / 2)) = (s ! k + s ! (k + 1)) / 2"
    unfolding h .
  moreover have "length s div 2 = k + 1" "length s div 2 - 1 = k" unfolding n by simp_all
  ultimately show ?thesis using False by simp
qed

lemma series_statistics_order:
  assumes "vs \<noteq> []"
  shows "\<exists>mn p25 med p75 mx.
           series_min vs = Some mn \<and> series_quantile vs (1 / 4) = Some p25
         \<and> series_median vs = Some med \<and> series_quantile vs (3 / 4) = Some p75
         \<and> series_max vs = Some mx
         \<and> mn \<le> p25 \<and> p25 \<le> med \<and> med \<le> p75 \<and> p75 \<le> mx"
proof -
  let ?s = "sort vs"
  let ?n = "length vs"
  let ?I = "\<lambda>q. interpolate ?s (real (?n - 1) * q)"
  obtain x xs where vs: "vs = x # xs" using assms by (cases vs) auto
  have srt: "sorted ?s" by simp
  have ne: "?s \<noteq> []" using assms by (metis length_sort length_0_conv)
  have len: "length ?s = ?n" by (rule length_sort)
  have mn: "series_min vs = Some (?I 0)"
    unfolding series_min_def vs list.case fold_min_sort
    using interpolate_at_index[of "sort (x # xs)" 0] by simp
  have mx: "series_max vs = Some (?I 1)"
    unfolding series_max_def vs list.case fold_max_sort
    using interpolate_at_index[of "sort (x # xs)" "length (x # xs) - 1"] by simp
  have q: "series_quantile vs q = Some (?I q)" for q
    using assms by (simp add: series_quantile_def)
  have med: "series_median vs = Some (?I (1 / 2))"
    using assms median_interpolate[OF ne] by (simp add: series_median_def Let_def)
  have mono: "?I a \<le> ?I b" if "0 \<le> a" "a \<le> b" "b \<le> 1" for a b
  proof -
    have 1: "0 \<le> real (?n - 1) * a" using that(1) by simp
    have 2: "real (?n - 1) * a \<le> real (?n - 1) * b"
      using that(2) by (simp add: mult_left_mono)
    have "real (?n - 1) * b \<le> real (?n - 1) * 1"
      using that(3) by (intro mult_left_mono) simp_all
    then have 3: "real (?n - 1) * b \<le> real (length ?s - 1)"
      unfolding len by simp
    show ?thesis using srt ne 1 2 3 by (rule interpolate_mono)
  qed
  have "?I 0 \<le> ?I (1 / 4)" "?I (1 / 4) \<le> ?I (1 / 2)" "?I (1 / 2) \<le> ?I (3 / 4)" "?I (3 / 4) \<le> ?I 1"
    by (rule mono; simp)+
  then show ?thesis
    using mn mx med q[of "1 / 4"] q[of "3 / 4"] by blast
qed

lemma length_values_of: "length (values_of df) = length (filter (\<lambda>r. Value r \<noteq> None) df)"
  by (simp add: values_of_def map_filter_def)

lemma get_summary_Inr:
  assumes "filter_data ftp_get c (indicator_value i) (area_type_value a) tp = (Inr (df, period), c')"
  shows "\<exists>resp. fst (get_summary ftp_get c i a tp) = Inr resp
      \<and> summary_areas_count resp = length (values_of df)
      \<and> summary_time_period resp = period
      \<and> stat_min (summary_statistics resp) = py_round (series_min (values_of df)) 2
      \<and> stat_percentile_25 (summary_statistics resp) = py_round (series_quantile (values_of df) (1 / 4)) 2
      \<and> stat_median (summary_statistics resp) = py_round (series_median (values_of df)) 2
      \<and> stat_percentile_75 (summary_statistics resp) = py_round (series_quantile (values_of df) (3 / 4)) 2
      \<and> stat_max (summary_statistics resp) = py_round (series_max (values_of df)) 2"
  unfolding get_summary_def assms by (simp add: Let_def)

text \<open>
  C4. When the filtered rows have at least one value that is present, the statistics of
  \<open>/summary\<close> are numbers with \<open>min \<le> percentile_25 \<le> median \<le> percentile_75 \<le> max\<close>
  (after the rounding to 2 decimals), and \<open>areas_count\<close> is the number of filtered rows
  whose value is present.
\<close>

theorem get_summary_statistics_order:
  assumes "filter_data ftp_get c (indicator_value indicator_id) (area_type_value area_type)
             time_period = (Inr (df, period), c')"
    and "\<exists>r\<in>set df. Value r \<noteq> None"
  shows "\<exists>resp mn p25 med p75 mx.
           fst (get_summary ftp_get c indicator_id area_type time_period) = Inr resp
         \<and> stat_min (summary_statistics resp) = Some mn
         \<and> stat_percentile_25 (summary_statistics resp) = Some p25
         \<and> stat_median (summary_statistics resp) = Some med
         \<and> stat_percentile_75 (summary_statistics resp) = Some p75
         \<and> stat_max (summary_statistics resp) = Some mx
         \<and> mn \<le> p25 \<and> p25 \<le> med \<and> med \<le> p75 \<and> p75 \<le> mx
         \<and> summary_areas_count resp = length (filter (\<lambda>r. Value r \<noteq> None) df)"
proof -
  have "filter (\<lambda>r. Value r \<noteq> None) df \<noteq> []"
    using assms(2) unfolding filter_empty_conv by blast
  then have ne: "values_of df \<noteq> []"
    using length_values_of[of df] by (metis length_0_conv)
  obtain mn p25 med p75 mx where
    s: "series_min (values_of df) = Some mn" "series_quantile (values_of df) (1 / 4) = Some p25"
       "series_median (values_of df) = Some med" "series_quantile (values_of df) (3 / 4) = Some p75"
       "series_max (values_of df) = Some mx"
    and o: "mn \<le> p25" "p25 \<le> med" "med \<le> p75" "p75 \<le> mx"
    using series_statistics_order[OF ne] by blast
  obtain resp where r: "fst (get_summary ftp_get c indicator_id area_type time_period) = Inr resp"
      "summary_areas_count resp = length (values_of df)"
      "stat_min (summary_statistics resp) = Some (round_nd 2 mn)"
      "stat_percentile_25 (summary_statistics resp) = Some (round_nd 2 p25)"
      "stat_median (summary_statistics resp) = Some (round_nd 2 med)"
      "stat_percentile_75 (summary_statistics resp) = Some (round_nd 2 p75)"
      "stat_max (summary_statistics resp) = Some (round_nd 2 mx)"
    using get_summary_Inr[OF assms(1)] unfolding s py_round_def option.map by blast
  have "round_nd 2 mn \<le> round_nd 2 p25" "round_nd 2 p25 \<le> round_nd 2 med"
       "round_nd 2 med \<le> round_nd 2 p75" "round_nd 2 p75 \<le> round_nd 2 mx"
    using o by (simp_all add: round_nd_mono)
  then show ?thesis
    using r unfolding length_values_of by blast
qed

theorem get_summary_statistics_order_witness:
  "\<exists>resp mn p25 med p75 mx.
       fst (get_summary (\<lambda>_. sample_data) empty_cache TYPE1_9_CARE_PROCESSES ICBS None) = Inr resp
     \<and> stat_min (summary_statistics resp) = Some mn
     \<and> stat_percentile_25 (summary_statistics resp) = Some p25
     \<and> stat_median (summary_statistics resp) = Some med
     \<and> stat_percentile_75 (summary_statistics resp) = Some p75
     \<and> stat_max (summary_statistics resp) = Some mx
     \<and> mn \<le> p25 \<and> p25 \<le> med \<and> med \<le> p75 \<and> p75 \<le> mx
     \<and> summary_areas_count resp = 3"
proof -
  have h: "\<exists>r\<in>set [mk_row ''E54000008'' ''Cheshire'' ''ICBs'' ''2023/24'' (Some (85 / 2)) (Some 425) (Some 1000),
            mk_row ''E54000010'' ''Kent'' ''ICBs'' ''2023/24'' None None None,
            mk_row ''E54000011'' ''Shropshire'' ''ICBs'' ''2023/24'' (Some (221 / 4)) (Some 1105) (Some 2000),
            mk_row ''E54000013'' ''Lincolnshire'' ''ICBs'' ''2023/24'' (Some 38) (Some 570) (Some 1500)].
          Value r \<noteq> None"
    by (simp add: mk_row_def del: not_None_eq)
  have n: "length (filter (\<lambda>r. Value r \<noteq> None)
           [mk_row ''E54000008'' ''Cheshire'' ''ICBs'' ''2023/24'' (Some (85 / 2)) (Some 425) (Some 1000),
            mk_row ''E54000010'' ''Kent'' ''ICBs'' ''2023/24'' None None None,
            mk_row ''E54000011'' ''Shropshire'' ''ICBs'' ''2023/24'' (Some (221 / 4)) (Some 1105) (Some 2000),
            mk_row ''E54000013'' ''Lincolnshire'' ''ICBs'' ''2023/24'' (Some 38) (Some 570) (Some 1500)]) = 3"
    by (simp add: mk_row_def del: not_None_eq)
  from get_summary_statistics_order[OF sample_filter_data_latest_pair h]
  show ?thesis unfolding n .
qed

section \<open>Rankings\<close>

lemma filter_dropna_Value [simp]:
  "filter (\<lambda>r. Value r \<noteq> None) (dropna_Value df) = dropna_Value df"
  "filter (\<lambda>r. Value r = None) (dropna_Value df) = []"
  by (simp_all add: dropna_Value_def filter_empty_conv del: not_None_eq)

lemma nlargest_dropna:
  "nlargest n (dropna_Value df) = take n (sort_key (\<lambda>r. - value_of r) (dropna_Value df))"
  by (simp add: nlargest_def sort_values_desc_def del: not_None_eq)

lemma nsmallest_dropna:
  "nsmallest n (dropna_Value df) = take n (sort_key value_of (dropna_Value df))"
  by (simp add: nsmallest_def sort_values_asc_def del: not_None_eq)

lemma select_rows_sort:
  "select_rows ord n df =
     take n (sort_key (\<lambda>r. if ord = Top then - value_of r else value_of r) (dropna_Value df))"
  by (cases ord) (simp_all add: select_rows_def Let_def nlargest_dropna nsmallest_dropna)

lemma length_select_rows: "length (select_rows ord n df) = min n (length (dropna_Value df))"
  by (simp add: select_rows_sort min.commute)

lemma set_select_rows: "set (select_rows ord n df) \<subseteq> set (dropna_Value df)"
  unfolding select_rows_sort by (metis set_sort set_take_subset)

lemma take_drop_sorted_key:
  assumes "sorted (map f s)" and "a \<in> set (take n s)" and "b \<in> set (drop n s)"
  shows "f a \<le> f b"
proof -
  have "sorted (map f (take n s) @ map f (drop n s))"
    using assms(1) by (simp only: map_append[symmetric] append_take_drop_id)
  then show ?thesis
    using assms(2,3) by (auto simp: sorted_append)
qed

lemma select_rows_extreme:
  "\<exists>rest. mset (select_rows ord n df) + mset rest = mset (dropna_Value df)
        \<and> (\<forall>a\<in>set (select_rows ord n df). \<forall>b\<in>set rest.
              if ord = Top then value_of b \<le> value_of a else value_of a \<le> value_of b)"
proof -
  let ?f = "\<lambda>r. if ord = Top then - value_of r else value_of r"
  let ?s = "sort_key ?f (dropna_Value df)"
  have "mset (take n ?s) + mset (drop n ?s) = mset ?s"
    by (metis append_take_drop_id mset_append)
  then have m: "mset (select_rows ord n df) + mset (drop n ?s) = mset (dropna_Value df)"
    unfolding select_rows_sort by simp
  have srt: "sorted (map ?f ?s)" by (rule sorted_sort_key)
  have "\<forall>a\<in>set (select_rows ord n df). \<forall>b\<in>set (drop n ?s).
              if ord = Top then value_of b \<le> value_of a else value_of a \<le> value_of b"
  proof (intro ballI)
    fix a b
    assume "a \<in> set (select_rows ord n df)" "b \<in> set (drop n ?s)"
    then have "?f a \<le> ?f b"
      unfolding select_rows_sort using srt by (intro take_drop_sorted_key[of ?f ?s a n b])
    then show "if ord = Top then value_of b \<le> value_of a else value_of a \<le> value_of b"
      by (cases ord) simp_all
  qed
  with m show ?thesis by blast
qed

lemma ranks_enumerate1:
  "map ranking_rank (map to_ranking (enumerate1 xs)) = [1 ..< Suc (length xs)]"
proof -
  have "map ranking_rank (map to_ranking (enumerate1 xs)) = map fst (enumerate1 xs)"
    by (simp add: to_ranking_def split_beta comp_def)
  also have "\<dots> = [1 ..< Suc (length xs)]"
    unfolding enumerate1_def by (simp del: upt_Suc)
  finally show ?thesis .
qed

lemma codes_enumerate1:
  "map ranking_area_code (map to_ranking (enumerate1 xs)) = map Area_Code xs"
proof -
  have "map ranking_area_code (map to_ranking (enumerate1 xs)) = map (Area_Code \<circ> snd) (enumerate1 xs)"
    by (simp add: to_ranking_def split_beta comp_def)
  also have "\<dots> = map Area_Code (map snd (enumerate1 xs))" by simp
  also have "map snd (enumerate1 xs) = xs"
    unfolding enumerate1_def by (simp del: upt_Suc)
  finally show ?thesis .
qed

lemma get_rankings_Inr:
  assumes "filter_data ftp_get c (indicator_value i) (area_type_value a) tp = (Inr (df, period), c')"
  shows "fst (get_rankings ftp_get c i a tp n ord) =
           Inr \<lparr>rankings_indicator = INDICATOR_INFO i,
                rankings_area_type = area_type_value a,
                rankings_time_period = period,
                rankings_order = ord,
                rankings_rankings = map to_ranking (enumerate1 (select_rows ord n df))\<rparr>"
  unfolding get_rankings_def assms by simp

text \<open>
  C5. Once \<open>filter_data\<close> has returned the rows \<open>df\<close>, \<open>/rankings\<close> returns \<open>k\<close> entries, with
  \<open>k\<close> the smaller of \<open>n\<close> and the number of rows of \<open>df\<close> whose value is present. Their ranks
  are \<open>1, 2, ..., k\<close>, a strictly increasing sequence. The entries are those of \<open>k\<close> rows
  \<open>sel\<close> of \<open>df\<close>, in order; every row of \<open>sel\<close> has a value, and \<open>sel\<close> with the rows
  \<open>rest\<close> that were not selected makes up the rows with a value, every selected value being
  at least (for \<open>top\<close>) or at most (for \<open>bottom\<close>) every value of \<open>rest\<close>. The result is a
  function of the input.
\<close>

theorem get_rankings_ranks:
  assumes "filter_data ftp_get c (indicator_value indicator_id) (area_type_value area_type)
             time_period = (Inr (df, period), c')"
    and "k = min n (length (dropna_Value df))"
  shows "\<exists>resp sel rest.
           fst (get_rankings ftp_get c indicator_id area_type time_period n ord) = Inr resp
         \<and> rankings_rankings resp = map to_ranking (zip [1 ..< Suc k] sel)
         \<and> length sel = k
         \<and> map ranking_rank (rankings_rankings resp) = [1 ..< Suc k]
         \<and> sorted_wrt (<) (map ranking_rank (rankings_rankings resp))
         \<and> (\<forall>r\<in>set sel. Value r \<noteq> None)
         \<and> mset sel + mset rest = mset (dropna_Value df)
         \<and> (\<forall>a\<in>set sel. \<forall>b\<in>set rest.
               if ord = Top then value_of b \<le> value_of a else value_of a \<le> value_of b)"
proof -
  let ?sel = "select_rows ord n df"
  let ?resp = "\<lparr>rankings_indicator = INDICATOR_INFO indicator_id,
                rankings_area_type = area_type_value area_type,
                rankings_time_period = period,
                rankings_order = ord,
                rankings_rankings = map to_ranking (enumerate1 ?sel)\<rparr>"
  have len: "length ?sel = k" unfolding assms(2) by (rule length_select_rows)
  have 1: "fst (get_rankings ftp_get c indicator_id area_type time_period n ord) = Inr ?resp"
    using assms(1) by (rule get_rankings_Inr)
  have 2: "rankings_rankings ?resp = map to_ranking (zip [1 ..< Suc k] ?sel)"
    by (simp add: enumerate1_def len del: upt_Suc)
  have 3: "map ranking_rank (rankings_rankings ?resp) = [1 ..< Suc k]"
    using ranks_enumerate1[of ?sel] by (simp add: len del: upt_Suc)
  have 4: "sorted_wrt (<) (map ranking_rank (rankings_rankings ?resp))"
    unfolding 3 by (rule sorted_wrt_upt)
  have 5: "\<forall>r\<in>set ?sel. Value r \<noteq> None"
    using set_select_rows[of ord n df] by (auto simp: dropna_Value_def)
  obtain rest where 6: "mset ?sel + mset rest = mset (dropna_Value df)"
    and 7: "\<forall>a\<in>set ?sel. \<forall>b\<in>set rest.
               if ord = Top then value_of b \<le> value_of a else value_of a \<le> value_of b"
    using select_rows_extreme[of ord n df] by blast
  from 1 2 len 3 4 5 6 7 show ?thesis by blast
qed

theorem get_rankings_ranks_witness:
  "\<exists>resp sel rest.
       fst (get_rankings (\<lambda>_. sample_data) empty_cache TYPE1_9_CARE_PROCESSES ICBS None 3 Top) = Inr resp
     \<and> rankings_rankings resp = map to_ranking (zip [1 ..< Suc 3] sel)
     \<and> length sel = 3
     \<and> map ranking_rank (rankings_rankings resp) = [1 ..< Suc 3]
     \<and> sorted_wrt (<) (map ranking_rank (rankings_rankings resp))
     \<and> (\<forall>r\<in>set sel. Value r \<noteq> None)
     \<and> mset sel + mset rest = mset (dropna_Value
           [mk_row ''E54000008'' ''Cheshire'' ''ICBs'' ''2023/24'' (Some (85 / 2)) (Some 425) (Some 1000),
            mk_row ''E54000010'' ''Kent'' ''ICBs'' ''2023/24'' None None None,
            mk_row ''E54000011'' ''Shropshire'' ''ICBs'' ''2023/24'' (Some (221 / 4)) (Some 1105) (Some 2000),
            mk_row ''E54000013'' ''Lincolnshire'' ''ICBs'' ''2023/24'' (Some 38) (Some 570) (Some 1500)])
     \<and> (\<forall>a\<in>set sel. \<forall>b\<in>set rest.
           if Top = Top then value_of b \<le> value_of a else value_of a \<le> value_of b)"
proof -
  have k: "3 = min 3 (length (dropna_Value
           [mk_row ''E54000008'' ''Cheshire'' ''ICBs'' ''2023/24'' (Some (85 / 2)) (Some 425) (Some 1000),
            mk_row ''E54000010'' ''Kent'' ''ICBs'' ''2023/24'' None None None,
            mk_row ''E54000011'' ''Shropshire'' ''ICBs'' ''2023/24'' (Some (221 / 4)) (Some 1105) (Some 2000),
            mk_row ''E54000013'' ''Lincolnshire'' ''ICBs'' ''2023/24'' (Some 38) (Some 570) (Some 1500)]))"
    by (simp add: dropna_Value_def mk_row_def del: not_None_eq)
  show ?thesis
    by (rule get_rankings_ranks[OF sample_filter_data_latest_pair k])
qed

lemma round_nd_2_int: "round_nd 2 (of_int z) = of_int z"
proof -
  have "(of_int z :: real) * 10 ^ 2 = of_int (z * 100)" by simp
  then have "round_half_even (of_int z * 10 ^ 2) = z * 100"
    unfolding round_half_even_def Let_def by (simp only: floor_of_int) simp
  then show ?thesis by (simp add: round_nd_def)
qed

lemma six_areas_filter_data:
  "filter_data (\<lambda>_. six_areas) empty_cache (indicator_value TYPE1_9_CARE_PROCESSES)
          (area_type_value ICBS) None =
     (Inr (six_areas, ''2023/24''),
      snd (filter_data (\<lambda>_. six_areas) empty_cache (indicator_value TYPE1_9_CARE_PROCESSES)
          (area_type_value ICBS) None))"
proof -
  have f: "fst (get_indicator_data (\<lambda>_. six_areas) empty_cache (indicator_value TYPE1_9_CARE_PROCESSES))
             = six_areas"
    by (simp add: get_indicator_data_def empty_cache_def)
  have a: "six_areas = filter (\<lambda>r. Area_Type r = area_type_value ICBS) six_areas"
    by (simp add: six_areas_def mk_row_def)
  have ne: "six_areas \<noteq> []" by (simp add: six_areas_def)
  have m: "Max (Time_period ` set six_areas) = ''2023/24''"
    by (simp add: six_areas_def mk_row_def)
  have p: "filter (\<lambda>r. Time_period r = ''2023/24'') six_areas = six_areas"
    by (simp add: six_areas_def mk_row_def)
  have "fst (filter_data (\<lambda>_. six_areas) empty_cache (indicator_value TYPE1_9_CARE_PROCESSES)
          (area_type_value ICBS) None) = Inr (six_areas, ''2023/24'')"
    unfolding fst_filter_data f filter_rows_latest[OF a ne] m p by (rule refl)
  then show ?thesis by (simp add: prod_eq_iff)
qed

lemma six_areas_top:
  "select_rows Top 5 six_areas =
     [mk_row ''A6'' ''Six'' ''ICBs'' ''2023/24'' (Some 60) (Some 60) (Some 100),
      mk_row ''A5'' ''Five'' ''ICBs'' ''2023/24'' (Some 50) (Some 50) (Some 100),
      mk_row ''A4'' ''Four'' ''ICBs'' ''2023/24'' (Some 40) (Some 40) (Some 100),
      mk_row ''A3'' ''Three'' ''ICBs'' ''2023/24'' (Some 30) (Some 30) (Some 100),
      mk_row ''A2'' ''Two'' ''ICBs'' ''2023/24'' (Some 20) (Some 20) (Some 100)]"
  by (simp add: select_rows_sort dropna_Value_def six_areas_def mk_row_def value_of_def
           del: not_None_eq)

lemma six_areas_bottom:
  "select_rows Bottom 5 six_areas =
     [mk_row ''A1'' ''One'' ''ICBs'' ''2023/24'' (Some 10) (Some 10) (Some 100),
      mk_row ''A2'' ''Two'' ''ICBs'' ''2023/24'' (Some 20) (Some 20) (Some 100),
      mk_row ''A3'' ''Three'' ''ICBs'' ''2023/24'' (Some 30) (Some 30) (Some 100),
      mk_row ''A4'' ''Four'' ''ICBs'' ''2023/24'' (Some 40) (Some 40) (Some 100),
      mk_row ''A5'' ''Five'' ''ICBs'' ''2023/24'' (Some 50) (Some 50) (Some 100)]"
  by (simp add: select_rows_sort dropna_Value_def six_areas_def mk_row_def value_of_def
           del: not_None_eq)

section \<open>Top and bottom rankings\<close>

lemma filter_key_distinct:
  assumes "distinct (map f zs)" and "k \<in> set zs"
  shows "filter (\<lambda>x. f k = f x) zs = [k]"
  using assms
proof (induction zs)
  case Nil
  then show ?case by simp
next
  case (Cons z zs)
  have nz: "f z \<notin> f ` set zs" and d: "distinct (map f zs)"
    using Cons.prems(1) by simp_all
  show ?case
  proof (cases "k = z")
    case True
    have "filter (\<lambda>x. f z = f x) zs = []"
      using nz by (auto simp: filter_empty_conv)
    then show ?thesis using True by simp
  next
    case False
    then have k: "k \<in> set zs" using Cons.prems(2) by simp
    then have "f k \<in> f ` set zs" by (rule imageI)
    then have "f k \<noteq> f z" using nz by metis
    then show ?thesis using Cons.IH[OF d k] by simp
  qed
qed

lemma sort_key_neg_rev:
  fixes f :: "'a \<Rightarrow> real"
  assumes "distinct (map f xs)"
  shows "sort_key (\<lambda>r. - f r) xs = rev (sort_key f xs)"
proof (rule properties_for_sort_key)
  show "mset (rev (sort_key f xs)) = mset xs" by simp
next
  fix k assume k: "k \<in> set (rev (sort_key f xs))"
  then have kx: "k \<in> set xs" by simp
  have "mset (map f (rev (sort_key f xs))) = mset (map f xs)" by simp
  then have d: "distinct (map f (rev (sort_key f xs)))"
    using assms by (metis mset_eq_imp_distinct_iff)
  have "filter (\<lambda>x. f k = f x) (rev (sort_key f xs)) = [k]"
    using d k by (rule filter_key_distinct)
  moreover have "filter (\<lambda>x. f k = f x) xs = [k]"
    using assms kx by (rule filter_key_distinct)
  ultimately show "filter (\<lambda>x. - f k = - f x) (rev (sort_key f xs)) = filter (\<lambda>x. - f k = - f x) xs"
    by simp
next
  have "sorted (map f (sort_key f xs))" by (rule sorted_sort_key)
  then have "sorted_wrt (\<lambda>x y. f x \<le> f y) (sort_key f xs)"
    by (simp only: sorted_wrt_map)
  then have "sorted_wrt (\<lambda>x y. - f y \<le> - f x) (sort_key f xs)"
    by simp
  then have "sorted_wrt (\<lambda>x y. - f x \<le> - f y) (rev (sort_key f xs))"
    by (simp only: sorted_wrt_rev)
  then show "sorted (map (\<lambda>r. - f r) (rev (sort_key f xs)))"
    by (simp only: sorted_wrt_map)
qed

lemma take_top_bottom_disjoint:
  fixes f :: "'a \<Rightarrow> real"
  assumes "distinct (map f xs)" and "2 * n \<le> length xs"
  shows "set (take n (sort_key (\<lambda>r. - f r) xs)) \<inter> set (take n (sort_key f xs)) = {}"
proof -
  let ?s = "sort_key f xs"
  have "distinct xs" using assms(1) by (simp add: distinct_map)
  then have ds: "distinct ?s" by simp
  have len: "length ?s = length xs" by simp
  have "take n (sort_key (\<lambda>r. - f r) xs) = rev (drop (length ?s - n) ?s)"
    unfolding sort_key_neg_rev[OF assms(1)] by (rule take_rev)
  then have "set (take n (sort_key (\<lambda>r. - f r) xs)) = set (drop (length ?s - n) ?s)"
    by simp
  moreover have "n \<le> length ?s - n" using assms(2) len by linarith
  then have "set (take n ?s) \<inter> set (drop (length ?s - n) ?s) = {}"
    using ds by (intro set_take_disj_set_drop_if_distinct)
  ultimately show ?thesis by blast
qed

lemma distinct_value_of:
  assumes "distinct (map Value (dropna_Value df))"
  shows "distinct (map value_of (dropna_Value df))"
proof -
  have d: "distinct (dropna_Value df)" and inj: "inj_on Value (set (dropna_Value df))"
    using assms by (simp_all add: distinct_map)
  have "inj_on value_of (set (dropna_Value df))"
  proof (rule inj_onI)
    fix a b
    assume a: "a \<in> set (dropna_Value df)" and b: "b \<in> set (dropna_Value df)"
      and e: "value_of a = value_of b"
    obtain va vb where "Value a = Some va" "Value b = Some vb"
      using a b by (auto simp: dropna_Value_def)
    then have "Value a = Value b" using e by (simp add: value_of_def)
    then show "a = b" using inj a b by (auto dest: inj_onD)
  qed
  then show ?thesis using d by (simp add: distinct_map)
qed

lemma select_rows_top_bottom_disjoint:
  assumes "distinct (map Area_Code (dropna_Value df))"
    and "distinct (map Value (dropna_Value df))"
    and "2 * n \<le> length (dropna_Value df)"
  shows "set (map Area_Code (select_rows Top n df)) \<inter> set (map Area_Code (select_rows Bottom n df)) = {}"
proof -
  let ?xs = "dropna_Value df"
  have rows: "set (select_rows Top n df) \<inter> set (select_rows Bottom n df) = {}"
    unfolding select_rows_sort
    using take_top_bottom_disjoint[OF distinct_value_of[OF assms(2)] assms(3)] by simp
  have inj: "inj_on Area_Code (set ?xs)"
    using assms(1) by (simp add: distinct_map)
  have "Area_Code ` (set (select_rows Top n df) \<inter> set (select_rows Bottom n df)) =
          Area_Code ` set (select_rows Top n df) \<inter> Area_Code ` set (select_rows Bottom n df)"
    using inj set_select_rows[of Top n df] set_select_rows[of Bottom n df]
    by (rule inj_on_image_Int)
  then show ?thesis unfolding rows by simp
qed

text \<open>
  C6, as the code has it. On the same filtered rows, when the rows with a value are at
  least 10 and have pairwise distinct values and pairwise distinct area codes, the areas of
  \<open>/rankings\<close> with \<open>order=top\<close>, \<open>n=5\<close> and the areas with \<open>order=bottom\<close>, \<open>n=5\<close> are
  disjoint.
\<close>

theorem rankings_top_bottom_disjoint:
  assumes "filter_data ftp_get c (indicator_value indicator_id) (area_type_value area_type)
             time_period = (Inr (df, period), c')"
    and "distinct (map Area_Code (dropna_Value df))"
    and "distinct (map Value (dropna_Value df))"
    and "10 \<le> length (dropna_Value df)"
  shows "\<exists>top bot.
           fst (get_rankings ftp_get c indicator_id area_type time_period 5 Top) = Inr top
         \<and> fst (get_rankings ftp_get c indicator_id area_type time_period 5 Bottom) = Inr bot
         \<and> length (rankings_rankings top) = 5 \<and> length (rankings_rankings bot) = 5
         \<and> set (map ranking_area_code (rankings_rankings top))
             \<inter> set (map ranking_area_code (rankings_rankings bot)) = {}"
proof -
  have n: "2 * 5 \<le> length (dropna_Value df)" using assms(4) by simp
  have l: "length (select_rows ord 5 df) = 5" for ord
    using assms(4) by (simp add: length_select_rows)
  have d: "set (map Area_Code (select_rows Top 5 df)) \<inter> set (map Area_Code (select_rows Bottom 5 df)) = {}"
    using assms(2,3) n by (rule select_rows_top_bottom_disjoint)
  let ?R = "\<lambda>ord. \<lparr>rankings_indicator = INDICATOR_INFO indicator_id,
                rankings_area_type = area_type_value area_type,
                rankings_time_period = period,
                rankings_order = ord,
                rankings_rankings = map to_ranking (enumerate1 (select_rows ord 5 df))\<rparr>"
  have t: "fst (get_rankings ftp_get c indicator_id area_type time_period 5 Top) = Inr (?R Top)"
    using assms(1) by (rule get_rankings_Inr)
  have b: "fst (get_rankings ftp_get c indicator_id area_type time_period 5 Bottom) = Inr (?R Bottom)"
    using assms(1) by (rule get_rankings_Inr)
  have codes: "map ranking_area_code (rankings_rankings (?R ord)) = map Area_Code (select_rows ord 5 df)"
    for ord
    by (simp only: rankings_response.select_convs codes_enumerate1)
  have len: "length (rankings_rankings (?R ord)) = 5" for ord
    by (simp add: enumerate1_def l del: upt_Suc)
  have "set (map ranking_area_code (rankings_rankings (?R Top)))
          \<inter> set (map ranking_area_code (rankings_rankings (?R Bottom))) = {}"
    unfolding codes by (rule d)
  with t b len[of Top] len[of Bottom] show ?thesis by blast
qed

lemma to_ranking_int:
  "to_ranking (k, mk_row code name aty tp (Some (of_int v)) cnt (Some (of_int d))) =
     \<lparr>ranking_rank = k, ranking_area_code = code, ranking_area_name = name,
      ranking_value = Some (of_int v), ranking_patient_count = Some d\<rparr>"
  by (simp add: to_ranking_def mk_row_def py_round_def round_nd_2_int int_or_none_def py_int_def)

theorem rankings_overlap_counterexample:
  "fst (get_rankings (\<lambda>_. six_areas) empty_cache TYPE1_9_CARE_PROCESSES ICBS None 5 Top) =
     Inr \<lparr>rankings_indicator = INDICATOR_INFO TYPE1_9_CARE_PROCESSES,
          rankings_area_type = ''ICBs'', rankings_time_period = ''2023/24'', rankings_order = Top,
          rankings_rankings =
            [\<lparr>ranking_rank = 1, ranking_area_code = ''A6'', ranking_area_name = ''Six'',
              ranking_value = Some 60, ranking_patient_count = Some 100\<rparr>,
             \<lparr>ranking_rank = 2, ranking_area_code = ''A5'', ranking_area_name = ''Five'',
              ranking_value = Some 50, ranking_patient_count = Some 100\<rparr>,
             \<lparr>ranking_rank = 3, ranking_area_code = ''A4'', ranking_area_name = ''Four'',
              ranking_value = Some 40, ranking_patient_count = Some 100\<rparr>,
             \<lparr>ranking_rank = 4, ranking_area_code = ''A3'', ranking_area_name = ''Three'',
              ranking_value = Some 30, ranking_patient_count = Some 100\<rparr>,
             \<lparr>ranking_rank = 5, ranking_area_code = ''A2'', ranking_area_name = ''Two'',
              ranking_value = Some 20, ranking_patient_count = Some 100\<rparr>]\<rparr>
   \<and> fst (get_rankings (\<lambda>_. six_areas) empty_cache TYPE1_9_CARE_PROCESSES ICBS None 5 Bottom) =
     Inr \<lparr>rankings_indicator = INDICATOR_INFO TYPE1_9_CARE_PROCESSES,
          rankings_area_type = ''ICBs'', rankings_time_period = ''2023/24'', rankings_order = Bottom,
          rankings_rankings =
            [\<lparr>ranking_rank = 1, ranking_area_code = ''A1'', ranking_area_name = ''One'',
              ranking_value = Some 10, ranking_patient_count = Some 100\<rparr>,
             \<lparr>ranking_rank = 2, ranking_area_code = ''A2'', ranking_area_name = ''Two'',
              ranking_value = Some 20, ranking_patient_count = Some 100\<rparr>,
             \<lparr>ranking_rank = 3, ranking_area_code = ''A3'', ranking_area_name = ''Three'',
              ranking_value = Some 30, ranking_patient_count = Some 100\<rparr>,
             \<lparr>ranking_rank = 4, ranking_area_code = ''A4'', ranking_area_name = ''Four'',
              ranking_value = Some 40, ranking_patient_count = Some 100\<rparr>,
             \<lparr>ranking_rank = 5, ranking_area_code = ''A5'', ranking_area_name = ''Five'',
              ranking_value = Some 50, ranking_patient_count = Some 100\<rparr>]\<rparr>
   \<and> length (remdups (map Area_Code six_areas)) = 6"
proof -
  have e: "enumerate1 [a, b, c, d, e] = [(1, a), (2, b), (3, c), (4, d), (5, e)]"
    for a b c d e :: row
    by (simp add: enumerate1_def upt_rec)
  have r: "to_ranking (k, mk_row code name aty tp (Some (numeral v)) cnt (Some (numeral d))) =
     \<lparr>ranking_rank = k, ranking_area_code = code, ranking_area_name = name,
      ranking_value = Some (numeral v), ranking_patient_count = Some (numeral d)\<rparr>"
    for k code name aty tp v cnt d
    using to_ranking_int[of k code name aty tp "numeral v" cnt "numeral d"] by simp
  have 1: "length (remdups (map Area_Code six_areas)) = 6"
    by (simp add: six_areas_def mk_row_def)
  show ?thesis
    unfolding get_rankings_Inr[OF six_areas_filter_data] six_areas_top six_areas_bottom e
    using 1 by (simp add: r)
qed

lemma ten_areas_filter_data:
  "filter_data (\<lambda>_. ten_areas) empty_cache (indicator_value TYPE1_9_CARE_PROCESSES)
          (area_type_value ICBS) None =
     (Inr (ten_areas, ''2023/24''),
      snd (filter_data (\<lambda>_. ten_areas) empty_cache (indicator_value TYPE1_9_CARE_PROCESSES)
          (area_type_value ICBS) None))"
proof -
  have f: "fst (get_indicator_data (\<lambda>_. ten_areas) empty_cache (indicator_value TYPE1_9_CARE_PROCESSES))
             = ten_areas"
    by (simp add: get_indicator_data_def empty_cache_def)
  have a: "ten_areas = filter (\<lambda>r. Area_Type r = area_type_value ICBS) ten_areas"
    by (simp add: ten_areas_def mk_row_def)
  have ne: "ten_areas \<noteq> []" by (simp add: ten_areas_def)
  have m: "Max (Time_period ` set ten_areas) = ''2023/24''"
    by (simp add: ten_areas_def mk_row_def)
  have p: "filter (\<lambda>r. Time_period r = ''2023/24'') ten_areas = ten_areas"
    by (simp add: ten_areas_def mk_row_def)
  have "fst (filter_data (\<lambda>_. ten_areas) empty_cache (indicator_value TYPE1_9_CARE_PROCESSES)
          (area_type_value ICBS) None) = Inr (ten_areas, ''2023/24'')"
    unfolding fst_filter_data f filter_rows_latest[OF a ne] m p by (rule refl)
  then show ?thesis by (simp add: prod_eq_iff)
qed

theorem rankings_top_bottom_disjoint_witness:
  "\<exists>top bot.
       fst (get_rankings (\<lambda>_. ten_areas) empty_cache TYPE1_9_CARE_PROCESSES ICBS None 5 Top) = Inr top
     \<and> fst (get_rankings (\<lambda>_. ten_areas) empty_cache TYPE1_9_CARE_PROCESSES ICBS None 5 Bottom) = Inr bot
     \<and> length (rankings_rankings top) = 5 \<and> length (rankings_rankings bot) = 5
     \<and> set (map ranking_area_code (rankings_rankings top))
         \<inter> set (map ranking_area_code (rankings_rankings bot)) = {}"
proof -
  have d: "dropna_Value ten_areas = ten_areas"
    by (simp add: dropna_Value_def ten_areas_def mk_row_def del: not_None_eq)
  have 1: "distinct (map Area_Code (dropna_Value ten_areas))"
    unfolding d by (simp add: ten_areas_def mk_row_def)
  have 2: "distinct (map Value (dropna_Value ten_areas))"
    unfolding d by (simp add: ten_areas_def mk_row_def)
  have 3: "10 \<le> length (dropna_Value ten_areas)"
    unfolding d by (simp add: ten_areas_def)
  show ?thesis
    by (rule rankings_top_bottom_disjoint[OF ten_areas_filter_data 1 2 3])
qed

text \<open>
  Why the values have to differ: on rows that all have the same value, both selections keep the
  first \<open>n\<close> rows of the frame (in pandas, for \<open>n\<close> below the number of rows), so the top and
  the bottom rankings list the same areas.
\<close>

lemma select_rows_ties_coincide:
  assumes "\<forall>r\<in>set df. Value r = Some v"
  shows "select_rows Top n df = take n df" and "select_rows Bottom n df = take n df"
proof -
  have d: "dropna_Value df = df"
    using assms by (simp add: dropna_Value_def filter_id_conv)
  have k: "\<forall>r\<in>set df. value_of r = v"
    using assms by (simp add: value_of_def)
  have "map (\<lambda>r. - value_of r) df = replicate (length df) (- v)"
    using k by (simp add: map_replicate_const[symmetric] cong: map_cong)
  then have "sorted (map (\<lambda>r. - value_of r) df)" by simp
  then have 1: "sort_key (\<lambda>r. - value_of r) df = df" by (rule sort_key_id_if_sorted)
  have "map value_of df = replicate (length df) v"
    using k by (simp add: map_replicate_const[symmetric] cong: map_cong)
  then have "sorted (map value_of df)" by simp
  then have 2: "sort_key value_of df = df" by (rule sort_key_id_if_sorted)
  show "select_rows Top n df = take n df" "select_rows Bottom n df = take n df"
    unfolding select_rows_sort d using 1 2 by simp_all
qed

section \<open>Requests that select no rows\<close>

lemma get_data_Inl:
  assumes "fst (filter_data ftp_get c (indicator_value i) (area_type_value a) tp) = Inl e"
  shows "fst (get_data ftp_get re_compile c i a tp anc mn mx lmt) = Inl e"
proof -
  obtain c' where fd: "filter_data ftp_get c (indicator_value i) (area_type_value a) tp = (Inl e, c')"
    using assms by (cases "filter_data ftp_get c (indicator_value i) (area_type_value a) tp") simp
  show ?thesis unfolding get_data_def fd by simp
qed

lemma get_summary_Inl:
  assumes "fst (filter_data ftp_get c (indicator_value i) (area_type_value a) tp) = Inl e"
  shows "fst (get_summary ftp_get c i a tp) = Inl e"
proof -
  obtain c' where fd: "filter_data ftp_get c (indicator_value i) (area_type_value a) tp = (Inl e, c')"
    using assms by (cases "filter_data ftp_get c (indicator_value i) (area_type_value a) tp") simp
  show ?thesis unfolding get_summary_def fd by simp
qed

lemma get_rankings_Inl:
  assumes "fst (filter_data ftp_get c (indicator_value i) (area_type_value a) tp) = Inl e"
  shows "fst (get_rankings ftp_get c i a tp n ord) = Inl e"
proof -
  obtain c' where fd: "filter_data ftp_get c (indicator_value i) (area_type_value a) tp = (Inl e, c')"
    using assms by (cases "filter_data ftp_get c (indicator_value i) (area_type_value a) tp") simp
  show ?thesis unfolding get_rankings_def fd by simp
qed

lemma fst_get_correlation_Inl:
  assumes "fst (filter_data ftp_get c (indicator_value i) (area_type_value a) tp) = Inl e"
  shows "fst (get_correlation ftp_get pearsonr c i a tp) = Inl e"
proof -
  obtain c' where fd: "filter_data ftp_get c (indicator_value i) (area_type_value a) tp = (Inl e, c')"
    using assms by (cases "filter_data ftp_get c (indicator_value i) (area_type_value a) tp") simp
  show ?thesis unfolding get_correlation_Inl[OF fd] by simp
qed

lemma generate_map_Inl:
  assumes "fst (filter_data ftp_get c (indicator_value i) ''ICBs'' tp) = Inl e"
  shows "fst (generate_map ftp_get read_file c i tp cmap w h dpi title fmt) = Inl e"
proof -
  obtain c' where fd: "filter_data ftp_get c (indicator_value i) ''ICBs'' tp = (Inl e, c')"
    using assms by (cases "filter_data ftp_get c (indicator_value i) ''ICBs'' tp") simp
  show ?thesis unfolding generate_map_def fd by simp
qed

lemma area_name_filter_compiles:
  assumes "pattern_compiles re_compile anc"
  shows "area_name_filter re_compile anc df =
           Inr (filter (\<lambda>r. case anc of
                               None \<Rightarrow> True
                             | Some s \<Rightarrow> s = [] \<or> (case re_compile s of
                                                      None \<Rightarrow> False
                                                    | Some found \<Rightarrow> found (Area_Name r))) df)"
  using assms
  by (cases anc) (auto simp: area_name_filter_def pattern_compiles_def)

lemma area_name_filter_invalid:
  assumes "anc = Some s" and "s \<noteq> []" and "re_compile s = None"
  shows "area_name_filter re_compile anc df = Inl ReError"
  using assms by (simp add: area_name_filter_def)

lemma filter_passes:
  "filter (passes_filters re_compile anc mn mx) df =
     (case mx of None \<Rightarrow> (\<lambda>d. d) | Some m \<Rightarrow> filter (\<lambda>r. float_le (Value r) m))
       ((case mn of None \<Rightarrow> (\<lambda>d. d) | Some m \<Rightarrow> filter (\<lambda>r. float_ge (Value r) m))
         (filter (\<lambda>r. case anc of
                         None \<Rightarrow> True
                       | Some s \<Rightarrow> s = [] \<or> (case re_compile s of
                                                None \<Rightarrow> False
                                              | Some found \<Rightarrow> found (Area_Name r))) df))"
  unfolding passes_filters_def
  by (cases mn; cases mx) (auto simp: conj_commute intro: filter_cong)

lemma get_data_Inr:
  assumes "fst (filter_data ftp_get c (indicator_value i) (area_type_value a) tp) = Inr (df, period)"
    and "pattern_compiles re_compile anc"
  shows "fst (get_data ftp_get re_compile c i a tp anc mn mx lmt) =
     (let rows = sort_values_desc (filter (passes_filters re_compile anc mn mx) df);
          records = map to_record
                      (case lmt of None \<Rightarrow> rows | Some l \<Rightarrow> if l = 0 then rows else take l rows)
      in Inr \<lparr>data_indicator = INDICATOR_INFO i,
              data_area_type = area_type_value a,
              data_time_period = period,
              data_count = length records,
              data_data = records\<rparr>)"
proof -
  obtain c' where fd: "filter_data ftp_get c (indicator_value i) (area_type_value a) tp
                         = (Inr (df, period), c')"
    using assms(1) by (cases "filter_data ftp_get c (indicator_value i) (area_type_value a) tp") simp
  show ?thesis
    unfolding get_data_def fd filter_passes area_name_filter_compiles[OF assms(2)]
    by (cases mn; cases mx; cases lmt) (simp_all add: Let_def)
qed

lemma get_data_invalid_pattern:
  assumes "fst (filter_data ftp_get c (indicator_value i) (area_type_value a) tp) = Inr (df, period)"
    and "s \<noteq> []" and "re_compile s = None"
  shows "fst (get_data ftp_get re_compile c i a tp (Some s) mn mx lmt) = Inl ReError"
proof -
  obtain c' where fd: "filter_data ftp_get c (indicator_value i) (area_type_value a) tp
                         = (Inr (df, period), c')"
    using assms(1) by (cases "filter_data ftp_get c (indicator_value i) (area_type_value a) tp") simp
  show ?thesis
    unfolding get_data_def fd using assms(2,3) by (simp add: area_name_filter_def)
qed

lemma sort_values_desc_Nil: "sort_values_desc [] = []"
  by (simp add: sort_values_desc_def)

text \<open>
  C3, as the code has it. The error that \<open>filter_data\<close> returns when its area-type or
  time-period stage yields zero rows halts \<open>/data\<close>, \<open>/summary\<close>, \<open>/rankings\<close>, \<open>/correlation\<close>
  and \<open>/map\<close>: each returns that error. The optional filters of \<open>/data\<close> do not halt the
  request: when \<open>filter_data\<close> succeeds and the area-name pattern, if one is given, is a valid
  regular expression, a \<open>/data\<close> request in which no row passes the area-name and value-range
  filters returns the successful empty listing, with count 0.
\<close>

theorem get_data_empty_is_success:
  "(\<forall>e. fst (filter_data ftp_get c (indicator_value indicator_id)
             (area_type_value area_type) time_period) = Inl e \<longrightarrow>
        fst (get_data ftp_get re_compile c indicator_id area_type time_period
               area_name_contains min_value max_value limit) = Inl e
      \<and> fst (get_summary ftp_get c indicator_id area_type time_period) = Inl e
      \<and> fst (get_rankings ftp_get c indicator_id area_type time_period n ord) = Inl e
      \<and> fst (get_correlation ftp_get pearsonr c indicator_id area_type time_period) = Inl e)
   \<and> (\<forall>e. fst (filter_data ftp_get c (indicator_value indicator_id) ''ICBs'' time_period) = Inl e
        \<longrightarrow> fst (generate_map ftp_get read_file c indicator_id time_period cmap
                   figsize_width figsize_height dpi title fmt) = Inl e)
   \<and> (\<forall>df period.
        fst (filter_data ftp_get c (indicator_value indicator_id)
               (area_type_value area_type) time_period) = Inr (df, period)
        \<and> pattern_compiles re_compile area_name_contains
        \<and> filter (passes_filters re_compile area_name_contains min_value max_value) df = []
        \<longrightarrow> fst (get_data ftp_get re_compile c indicator_id area_type time_period
                    area_name_contains min_value max_value limit) =
              Inr \<lparr>data_indicator = INDICATOR_INFO indicator_id,
                   data_area_type = area_type_value area_type,
                   data_time_period = period,
                   data_count = 0,
                   data_data = []\<rparr>)"
proof (intro conjI allI impI)
  fix e
  assume a: "fst (filter_data ftp_get c (indicator_value indicator_id)
             (area_type_value area_type) time_period) = Inl e"
  show "fst (get_data ftp_get re_compile c indicator_id area_type time_period
               area_name_contains min_value max_value limit) = Inl e"
    using a by (rule get_data_Inl)
  show "fst (get_summary ftp_get c indicator_id area_type time_period) = Inl e"
    using a by (rule get_summary_Inl)
  show "fst (get_rankings ftp_get c indicator_id area_type time_period n ord) = Inl e"
    using a by (rule get_rankings_Inl)
  show "fst (get_correlation ftp_get pearsonr c indicator_id area_type time_period) = Inl e"
    using a by (rule fst_get_correlation_Inl)
next
  fix e
  assume "fst (filter_data ftp_get c (indicator_value indicator_id) ''ICBs'' time_period) = Inl e"
  then show "fst (generate_map ftp_get read_file c indicator_id time_period cmap
                   figsize_width figsize_height dpi title fmt) = Inl e"
    by (rule generate_map_Inl)
next
  fix df period
  assume a: "fst (filter_data ftp_get c (indicator_value indicator_id)
               (area_type_value area_type) time_period) = Inr (df, period)
        \<and> pattern_compiles re_compile area_name_contains
        \<and> filter (passes_filters re_compile area_name_contains min_value max_value) df = []"
  then have fd: "fst (filter_data ftp_get c (indicator_value indicator_id)
               (area_type_value area_type) time_period) = Inr (df, period)"
    and pc: "pattern_compiles re_compile area_name_contains"
    and em: "filter (passes_filters re_compile area_name_contains min_value max_value) df = []"
    by simp_all
  show "fst (get_data ftp_get re_compile c indicator_id area_type time_period
                    area_name_contains min_value max_value limit) =
              Inr \<lparr>data_indicator = INDICATOR_INFO indicator_id,
                   data_area_type = area_type_value area_type,
                   data_time_period = period,
                   data_count = 0,
                   data_data = []\<rparr>"
    unfolding get_data_Inr[OF fd pc] em
    by (cases limit) (simp_all add: Let_def sort_values_desc_Nil)
qed

theorem get_data_empty_counterexample:
  "fst (get_data (\<lambda>_. sample_data) (\<lambda>pat. None) empty_cache TYPE1_9_CARE_PROCESSES ICBS
          None None (Some 90) None None) =
     Inr \<lparr>data_indicator = INDICATOR_INFO TYPE1_9_CARE_PROCESSES,
          data_area_type = ''ICBs'',
          data_time_period = ''2023/24'',
          data_count = 0,
          data_data = []\<rparr>"
proof -
  have pc: "pattern_compiles (\<lambda>pat. None) None"
    by (simp add: pattern_compiles_def)
  show ?thesis
    unfolding get_data_Inr[OF sample_filter_data_latest pc]
    by (simp add: passes_filters_def float_ge_def mk_row_def sort_values_desc_Nil)
qed

lemma sample_filter_data_2019:
  "fst (filter_data (\<lambda>_. sample_data) empty_cache (indicator_value TYPE1_9_CARE_PROCESSES)
          (area_type_value ICBS) (Some ''2019/20'')) =
     Inl (HTTPException 404 (''No data for time period '' @ [CHR 0x27] @ ''2019/20'' @ [CHR 0x27]))"
  unfolding fst_filter_data fetch_sample
  using filter_rows_Cons[OF sample_icbs[symmetric], of "Some ''2019/20''"]
  by (simp add: mk_row_def resolved_period_def)

theorem get_data_empty_is_success_witness:
  "fst (get_data (\<lambda>_. sample_data) (\<lambda>pat. None) empty_cache TYPE1_9_CARE_PROCESSES ICBS
          (Some ''2019/20'') None None None None) =
     Inl (HTTPException 404 (''No data for time period '' @ [CHR 0x27] @ ''2019/20'' @ [CHR 0x27]))
   \<and> fst (get_summary (\<lambda>_. sample_data) empty_cache TYPE1_9_CARE_PROCESSES ICBS (Some ''2019/20'')) =
     Inl (HTTPException 404 (''No data for time period '' @ [CHR 0x27] @ ''2019/20'' @ [CHR 0x27]))
   \<and> fst (get_rankings (\<lambda>_. sample_data) empty_cache TYPE1_9_CARE_PROCESSES ICBS (Some ''2019/20'')
            10 Top) =
     Inl (HTTPException 404 (''No data for time period '' @ [CHR 0x27] @ ''2019/20'' @ [CHR 0x27]))
   \<and> fst (get_correlation (\<lambda>_. sample_data) (\<lambda>x y. (None, None)) empty_cache
            TYPE1_9_CARE_PROCESSES ICBS (Some ''2019/20'')) =
     Inl (HTTPException 404 (''No data for time period '' @ [CHR 0x27] @ ''2019/20'' @ [CHR 0x27]))
   \<and> fst (generate_map (\<lambda>_. sample_data) sample_boundaries empty_cache TYPE1_9_CARE_PROCESSES
            (Some ''2019/20'') RdYlGn 10 12 100 None PNG) =
     Inl (HTTPException 404 (''No data for time period '' @ [CHR 0x27] @ ''2019/20'' @ [CHR 0x27]))
   \<and> fst (get_data (\<lambda>_. sample_data) (\<lambda>pat. None) empty_cache TYPE1_9_CARE_PROCESSES ICBS
          None None (Some 90) None None) =
     Inr \<lparr>data_indicator = INDICATOR_INFO TYPE1_9_CARE_PROCESSES,
          data_area_type = ''ICBs'',
          data_time_period = ''2023/24'',
          data_count = 0,
          data_data = []\<rparr>"
proof -
  have m: "fst (filter_data (\<lambda>_. sample_data) empty_cache (indicator_value TYPE1_9_CARE_PROCESSES)
             ''ICBs'' (Some ''2019/20'')) =
     Inl (HTTPException 404 (''No data for time period '' @ [CHR 0x27] @ ''2019/20'' @ [CHR 0x27]))"
    using sample_filter_data_2019 by simp
  have pc: "pattern_compiles (\<lambda>pat. None) None"
    by (simp add: pattern_compiles_def)
  have em: "filter (passes_filters (\<lambda>pat. None) None (Some 90) None)
             [mk_row ''E54000008'' ''Cheshire'' ''ICBs'' ''2023/24'' (Some (85 / 2)) (Some 425) (Some 1000),
              mk_row ''E54000010'' ''Kent'' ''ICBs'' ''2023/24'' None None None,
              mk_row ''E54000011'' ''Shropshire'' ''ICBs'' ''2023/24'' (Some (221 / 4)) (Some 1105) (Some 2000),
              mk_row ''E54000013'' ''Lincolnshire'' ''ICBs'' ''2023/24'' (Some 38) (Some 570) (Some 1500)] = []"
    by (simp add: passes_filters_def float_ge_def mk_row_def)
  note halt = get_data_empty_is_success[where ftp_get = "\<lambda>_. sample_data" and c = empty_cache
         and indicator_id = TYPE1_9_CARE_PROCESSES and area_type = ICBS
         and time_period = "Some ''2019/20''" and re_compile = "\<lambda>pat. None"
         and area_name_contains = None and min_value = None and max_value = None and limit = None
         and n = 10 and ord = Top and pearsonr = "\<lambda>x y. (None, None)"
         and read_file = sample_boundaries and cmap = RdYlGn and figsize_width = 10
         and figsize_height = 12 and dpi = 100 and title = None and fmt = PNG]
  note empty = get_data_empty_is_success[where ftp_get = "\<lambda>_. sample_data" and c = empty_cache
         and indicator_id = TYPE1_9_CARE_PROCESSES and area_type = ICBS
         and time_period = None and re_compile = "\<lambda>pat. None"
         and area_name_contains = None and min_value = "Some 90" and max_value = None
         and limit = None]
  have 1: "fst (get_data (\<lambda>_. sample_data) (\<lambda>pat. None) empty_cache TYPE1_9_CARE_PROCESSES ICBS
          (Some ''2019/20'') None None None None) =
     Inl (HTTPException 404 (''No data for time period '' @ [CHR 0x27] @ ''2019/20'' @ [CHR 0x27]))
   \<and> fst (get_summary (\<lambda>_. sample_data) empty_cache TYPE1_9_CARE_PROCESSES ICBS (Some ''2019/20'')) =
     Inl (HTTPException 404 (''No data for time period '' @ [CHR 0x27] @ ''2019/20'' @ [CHR 0x27]))
   \<and> fst (get_rankings (\<lambda>_. sample_data) empty_cache TYPE1_9_CARE_PROCESSES ICBS (Some ''2019/20'')
            10 Top) =
     Inl (HTTPException 404 (''No data for time period '' @ [CHR 0x27] @ ''2019/20'' @ [CHR 0x27]))
   \<and> fst (get_correlation (\<lambda>_. sample_data) (\<lambda>x y. (None, None)) empty_cache
            TYPE1_9_CARE_PROCESSES ICBS (Some ''2019/20'')) =
     Inl (HTTPException 404 (''No data for time period '' @ [CHR 0x27] @ ''2019/20'' @ [CHR 0x27]))"
    using halt sample_filter_data_2019 by blast
  have 2: "fst (generate_map (\<lambda>_. sample_data) sample_boundaries empty_cache TYPE1_9_CARE_PROCESSES
            (Some ''2019/20'') RdYlGn 10 12 100 None PNG) =
     Inl (HTTPException 404 (''No data for time period '' @ [CHR 0x27] @ ''2019/20'' @ [CHR 0x27]))"
    using halt m by blast
  have "fst (get_data (\<lambda>_. sample_data) (\<lambda>pat. None) empty_cache TYPE1_9_CARE_PROCESSES ICBS
          None None (Some 90) None None) =
     Inr \<lparr>data_indicator = INDICATOR_INFO TYPE1_9_CARE_PROCESSES,
          data_area_type = area_type_value ICBS,
          data_time_period = ''2023/24'',
          data_count = 0,
          data_data = []\<rparr>"
    using empty sample_filter_data_latest pc em by blast
  then have 3: "fst (get_data (\<lambda>_. sample_data) (\<lambda>pat. None) empty_cache TYPE1_9_CARE_PROCESSES ICBS
          None None (Some 90) None None) =
     Inr \<lparr>data_indicator = INDICATOR_INFO TYPE1_9_CARE_PROCESSES,
          data_area_type = ''ICBs'',
          data_time_period = ''2023/24'',
          data_count = 0,
          data_data = []\<rparr>"
    by simp
  from 1 2 3 show ?thesis by blast
qed

end
